theory Spec2Isabelle
  imports Main "HOL-Library.AList" "HOL-Library.Word"
begin

unbundle bit_operations_syntax

section \<open>Python values and the object store\<close>

text \<open>
  The program handles JSON and YAML documents: \<open>None\<close>, booleans, integers, floats,
  strings, lists and dicts with string keys. A float is kept as its IEEE 754 bit pattern;
  no arithmetic on floats is needed. Dicts are the only objects the program mutates
  (\<open>merged['text_to_speech'].update(...)\<close>, \<open>merged[key] = value\<close>), and a shallow
  \<open>copy()\<close> shares the nested dicts, so a dict is an address into an explicit store and
  its contents live there. A dict's contents are an association list in insertion order,
  as Python keeps them. Lists are never mutated by the program and are kept by value.
  A string is a list of characters of \<^typ>\<open>char\<close>.
\<close>

type_synonym addr = nat

datatype pyval =
    VNone
  | VBool bool
  | VInt int
  | VFloat "64 word"
  | VStr string
  | VList "pyval list"
  | VDict addr

type_synonym dict = "(string \<times> pyval) list"

type_synonym heap = "dict list"

text \<open>
  An exception is its class and the text \<open>str(e)\<close> gives for it. \<open>OtherException\<close> stands
  for any other subclass of \<open>Exception\<close> that external code raises. \<open>SystemExit\<close>,
  \<open>KeyboardInterrupt\<close>, \<open>GeneratorExit\<close> and \<open>CancelledError\<close> are the classes that derive
  from \<open>BaseException\<close> and not from \<open>Exception\<close>: \<open>except Exception\<close> does not catch
  them. \<open>NotModelled\<close> marks the one place where the program would leave the value
  universe above (a dict key that is not a string).
\<close>

datatype exn_class =
    AttributeError
  | TypeError
  | ValueError
  | OverflowError
  | OSError
  | HTTPException
  | OtherException
  | NotModelled
  | SystemExit
  | KeyboardInterrupt
  | GeneratorExit
  | CancelledError

datatype exn = Exn (class_of: exn_class) (message: string)

text \<open>\<open>isinstance(e, Exception)\<close>.\<close>

fun is_exception :: "exn_class \<Rightarrow> bool" where
  "is_exception SystemExit = False"
| "is_exception KeyboardInterrupt = False"
| "is_exception GeneratorExit = False"
| "is_exception CancelledError = False"
| "is_exception AttributeError = True"
| "is_exception TypeError = True"
| "is_exception ValueError = True"
| "is_exception OverflowError = True"
| "is_exception OSError = True"
| "is_exception HTTPException = True"
| "is_exception OtherException = True"
| "is_exception NotModelled = True"

fun type_name :: "pyval \<Rightarrow> string" where
  "type_name VNone = ''NoneType''"
| "type_name (VBool b) = ''bool''"
| "type_name (VInt i) = ''int''"
| "type_name (VFloat f) = ''float''"
| "type_name (VStr s) = ''str''"
| "type_name (VList xs) = ''list''"
| "type_name (VDict a) = ''dict''"

definition quoted :: "string \<Rightarrow> string" where
  "quoted s = CHR 0x27 # s @ [CHR 0x27]"

definition no_attribute :: "pyval \<Rightarrow> string \<Rightarrow> exn" where
  "no_attribute v name =
     Exn AttributeError (quoted (type_name v) @ '' object has no attribute '' @ quoted name)"

definition not_iterable :: "pyval \<Rightarrow> exn" where
  "not_iterable v = Exn TypeError (quoted (type_name v) @ '' object is not iterable'')"

definition unhashable :: "pyval \<Rightarrow> exn" where
  "unhashable v = Exn TypeError (''unhashable type: '' @ quoted (type_name v))"

function show_nat :: "nat \<Rightarrow> string" where
  "show_nat n =
     (if n < 10 then [''0123456789'' ! n]
      else show_nat (n div 10) @ [''0123456789'' ! (n mod 10)])"
  by pat_completeness auto
termination
  by (relation "measure id") auto

subsection \<open>Dict operations\<close>

text \<open>\<open>{}\<close> and \<open>{...}\<close>: a dict display allocates a new object.\<close>

definition new_dict :: "heap \<Rightarrow> dict \<Rightarrow> heap \<times> addr" where
  "new_dict h d = (h @ [d], length h)"

text \<open>\<open>d.copy()\<close>: a new dict with the same entries; nested dicts are shared.\<close>

definition dict_copy :: "heap \<Rightarrow> addr \<Rightarrow> heap \<times> addr" where
  "dict_copy h a = new_dict h (h ! a)"

text \<open>\<open>dst.update(src)\<close> for a dict \<open>src\<close>: each entry of \<open>src\<close>, in order, is assigned.\<close>

definition dict_merge :: "dict \<Rightarrow> dict \<Rightarrow> dict" where
  "dict_merge dst src = fold (\<lambda>(k, v). AList.update k v) src dst"

text \<open>
  \<open>dst.update(seq)\<close> for an argument that is no dict: every element of the iterable must
  itself be a sequence of length two, a key and a value. Elements are processed in order,
  so the entries before a bad element have been stored when the exception is raised.
\<close>

fun iter_items :: "heap \<Rightarrow> pyval \<Rightarrow> pyval list option" where
  "iter_items h (VStr s) = Some (map (\<lambda>c. VStr [c]) s)"
| "iter_items h (VList xs) = Some xs"
| "iter_items h (VDict a) = Some (map (\<lambda>kv. VStr (fst kv)) (h ! a))"
| "iter_items h v = None"

fun merge_from_seq2 :: "heap \<Rightarrow> addr \<Rightarrow> nat \<Rightarrow> pyval list \<Rightarrow> heap \<times> exn option" where
  "merge_from_seq2 h t i [] = (h, None)"
| "merge_from_seq2 h t i (item # items) =
     (case iter_items h item of
        None \<Rightarrow>
          (h, Some (Exn TypeError (''cannot convert dictionary update sequence element #''
                                   @ show_nat i @ '' to a sequence'')))
      | Some kv \<Rightarrow>
          if length kv \<noteq> 2 then
            (h, Some (Exn ValueError (''dictionary update sequence element #'' @ show_nat i
                                      @ '' has length '' @ show_nat (length kv)
                                      @ ''; 2 is required'')))
          else
            (case kv ! 0 of
               VStr k \<Rightarrow> merge_from_seq2 (h[t := AList.update k (kv ! 1) (h ! t)]) t (Suc i) items
             | VList xs \<Rightarrow> (h, Some (unhashable (VList xs)))
             | VDict a \<Rightarrow> (h, Some (unhashable (VDict a)))
             | key \<Rightarrow> (h, Some (Exn NotModelled (''dict key of type '' @ type_name key)))))"

definition dict_update :: "heap \<Rightarrow> addr \<Rightarrow> pyval \<Rightarrow> heap \<times> exn option" where
  "dict_update h t arg =
     (case arg of
        VDict u \<Rightarrow> (h[t := dict_merge (h ! t) (h ! u)], None)
      | VStr s \<Rightarrow> merge_from_seq2 h t 0 (map (\<lambda>c. VStr [c]) s)
      | VList xs \<Rightarrow> merge_from_seq2 h t 0 xs
      | v \<Rightarrow> (h, Some (not_iterable v)))"

section \<open>The config merger\<close>

text \<open>
  \<^verbatim>\<open>
  def merge_configs(base_config, user_config):
      merged = base_config.copy()
      if 'text_to_speech' in merged and 'text_to_speech' in user_config:
          merged['text_to_speech'].update(user_config.get('text_to_speech', {}))
      for key, value in user_config.items():
          if key != 'text_to_speech':
              if value is not None:
                  merged[key] = value
      return merged
  \<close>
  Both arguments are dicts, given by their addresses. The result is the store after the
  call together with the exception raised or the address of \<open>merged\<close>.
\<close>

text \<open>The loop over \<open>user_config.items()\<close>, on the contents of \<open>merged\<close>.\<close>

fun assign_items :: "dict \<Rightarrow> dict \<Rightarrow> dict" where
  "assign_items merged [] = merged"
| "assign_items merged ((key, val) # rest) =
     assign_items
       (if key \<noteq> ''text_to_speech'' then
          (if val \<noteq> VNone then AList.update key val merged else merged)
        else merged)
       rest"

text \<open>
  The statement under the \<open>if\<close>: the attribute \<open>update\<close> is looked up on
  \<open>merged['text_to_speech']\<close> first, then the argument is evaluated (the default \<open>{}\<close> of
  \<open>get\<close> is allocated although the key is present), then the call is made.
\<close>

definition update_text_to_speech :: "heap \<Rightarrow> pyval \<Rightarrow> pyval \<Rightarrow> heap \<times> exn option" where
  "update_text_to_speech h base_tts user_tts =
     (case base_tts of
        VDict t \<Rightarrow> dict_update (fst (new_dict h [])) t user_tts
      | v \<Rightarrow> (h, Some (no_attribute v ''update'')))"

definition merge_configs :: "heap \<Rightarrow> addr \<Rightarrow> addr \<Rightarrow> heap \<times> (exn + addr)" where
  "merge_configs h base_config user_config =
     (let (h1, merged) = dict_copy h base_config;
          (h2, raised) =
            (case (map_of (h1 ! merged) ''text_to_speech'',
                   map_of (h1 ! user_config) ''text_to_speech'') of
               (Some base_tts, Some user_tts) \<Rightarrow> update_text_to_speech h1 base_tts user_tts
             | _ \<Rightarrow> (h1, None))
      in case raised of
           Some e \<Rightarrow> (h2, Inl e)
         | None \<Rightarrow>
             (h2[merged := assign_items (h2 ! merged) (h2 ! user_config)], Inr merged))"

section \<open>The request handler\<close>

subsection \<open>The world around the handler\<close>

text \<open>
  The process state the handler reads and writes: the object store, the process
  environment (\<open>os.environ\<close>) and the regular files of the file system, by path. Paths that
  name no regular file (directories included) are absent from \<open>files\<close>.
\<close>

record world =
  store :: heap
  environ :: "string \<rightharpoonup> string"
  files :: "string \<rightharpoonup> 8 word list"

text \<open>
  What the handler observes of the generator's result: the string it is, when
  \<open>isinstance(result, str)\<close>, and the value of its attribute \<open>audio_path\<close>, when
  \<open>hasattr(result, 'audio_path')\<close> (a plain attribute: reading it twice gives the same
  value). The value of the attribute is \<open>None\<close>, a \<open>str\<close>, a \<open>pathlib.Path\<close> (which is
  always true) or any other object (bytes, a number, ...), given by an identity and by
  its truth value, which is all the handler observes of it.
\<close>

datatype py_object = ObjNone | ObjStr string | ObjPath string | ObjOther nat bool

fun obj_truthy :: "py_object \<Rightarrow> bool" where
  "obj_truthy ObjNone = False"
| "obj_truthy (ObjStr s) = (s \<noteq> [])"
| "obj_truthy (ObjPath p) = True"
| "obj_truthy (ObjOther i b) = b"

datatype gen_result = Result (result_str: "string option") (result_audio_path: "py_object option")

record gen_args =
  arg_urls :: pyval
  arg_conversation_config :: addr
  arg_tts_model :: pyval
  arg_longform :: bool

text \<open>
  The collaborators that are not code of this repository are parameters:
  \<^item> \<open>config_loaded\<close>: what opening and parsing \<open>podcastfy/conversation_config.yaml\<close> with
    \<open>yaml.safe_load\<close> gives, the message of the \<open>Exception\<close> raised or the parsed value
    (its dicts are objects of the store);
  \<^item> \<open>generate_podcast\<close>: the generator, free to change the world, raising an exception of
    any class or returning a result;
  \<^item> \<open>copy2\<close>: \<open>shutil.copy2(src, dst)\<close>, which changes the world and may raise;
  \<^item> \<open>float_of_str\<close>, \<open>float_of_int\<close>: Python's \<open>float()\<close> on a string (the message of the
    \<open>ValueError\<close>, or the float) and on an integer (\<open>None\<close> when it is too large);
  \<^item> \<open>urandom8\<close>: the eight bytes \<open>os.urandom(8)\<close> returns, first byte most significant;
  \<^item> \<open>temp_dir\<close>: the module constant \<open>TEMP_DIR\<close>.
  Exceptions that a signal raises at an arbitrary point (a \<open>KeyboardInterrupt\<close> while a
  library function runs) are not modelled.
\<close>

record externals =
  config_loaded :: "string + pyval"
  generate_podcast :: "gen_args \<Rightarrow> world \<Rightarrow> world \<times> (exn + gen_result)"
  copy2 :: "py_object \<Rightarrow> string \<Rightarrow> world \<Rightarrow> world \<times> (exn + unit)"
  float_of_str :: "string \<Rightarrow> string + 64 word"
  float_of_int :: "int \<Rightarrow> 64 word option"
  urandom8 :: "64 word"
  temp_dir :: string

text \<open>
  A step of the handler runs in a world and ends in a world, with an exception or a
  value. \<open>and_then\<close> is sequencing: an exception ends the sequence.
\<close>

type_synonym 'a action = "world \<Rightarrow> world \<times> (exn + 'a)"

definition and_then :: "'a action \<Rightarrow> ('a \<Rightarrow> 'b action) \<Rightarrow> 'b action" where
  "and_then m f w = (case m w of (w1, Inl e) \<Rightarrow> (w1, Inl e) | (w1, Inr x) \<Rightarrow> f x w1)"

definition succeed :: "'a \<Rightarrow> 'a action" where
  "succeed x w = (w, Inr x)"

definition raise :: "exn \<Rightarrow> 'a action" where
  "raise e w = (w, Inl e)"

definition allocate :: "dict \<Rightarrow> addr action" where
  "allocate d w = (case new_dict (store w) d of (h, a) \<Rightarrow> (w\<lparr>store := h\<rparr>, Inr a))"

subsection \<open>Python built-ins the handler uses\<close>

text \<open>Truth value testing (\<open>if x:\<close>, \<open>bool(x)\<close>).\<close>

fun truthy :: "heap \<Rightarrow> pyval \<Rightarrow> bool" where
  "truthy h VNone = False"
| "truthy h (VBool b) = b"
| "truthy h (VInt i) = (i \<noteq> 0)"
| "truthy h (VFloat f) = (f \<noteq> 0 \<and> f \<noteq> 0x8000000000000000)"
| "truthy h (VStr s) = (s \<noteq> [])"
| "truthy h (VList xs) = (xs \<noteq> [])"
| "truthy h (VDict a) = (h ! a \<noteq> [])"

text \<open>\<open>d.get(key, default)\<close> on a dict \<open>d\<close> with a string key.\<close>

definition dict_get :: "heap \<Rightarrow> addr \<Rightarrow> string \<Rightarrow> pyval \<Rightarrow> pyval" where
  "dict_get h a key dflt = (case map_of (h ! a) key of Some v \<Rightarrow> v | None \<Rightarrow> dflt)"

text \<open>
  \<open>d.get(key, default)\<close> with a key that is any value: a list or a dict cannot be hashed;
  \<open>None\<close>, a boolean or a number is hashable but no key of a dict with string keys.
\<close>

definition dict_get_val :: "heap \<Rightarrow> addr \<Rightarrow> pyval \<Rightarrow> pyval \<Rightarrow> exn + pyval" where
  "dict_get_val h a key dflt =
     (case key of
        VStr s \<Rightarrow> Inr (dict_get h a s dflt)
      | VList xs \<Rightarrow> Inl (unhashable (VList xs))
      | VDict k \<Rightarrow> Inl (unhashable (VDict k))
      | v \<Rightarrow> Inr dflt)"

text \<open>Looking up a method of dicts on a value: only a dict has it.\<close>

definition the_dict :: "pyval \<Rightarrow> string \<Rightarrow> addr action" where
  "the_dict v name = (case v of VDict a \<Rightarrow> succeed a | u \<Rightarrow> raise (no_attribute u name))"

text \<open>\<open>d.get(key, {})\<close>: the default is a new empty dict, allocated before the call.\<close>

definition get_or_empty :: "addr \<Rightarrow> string \<Rightarrow> pyval action" where
  "get_or_empty a key =
     and_then (allocate []) (\<lambda>e w. (w, Inr (dict_get (store w) a key (VDict e))))"

text \<open>
  \<open>float(x)\<close>. The float \<open>1.0\<close> is \<open>0x3FF0000000000000\<close>, \<open>0.0\<close> is \<open>0\<close>.
\<close>

definition py_float :: "externals \<Rightarrow> pyval \<Rightarrow> exn + 64 word" where
  "py_float ext v =
     (case v of
        VFloat f \<Rightarrow> Inr f
      | VInt i \<Rightarrow>
          (case float_of_int ext i of
             Some f \<Rightarrow> Inr f
           | None \<Rightarrow> Inl (Exn OverflowError ''int too large to convert to float''))
      | VBool b \<Rightarrow> Inr (if b then 0x3FF0000000000000 else 0)
      | VStr s \<Rightarrow> (case float_of_str ext s of
             Inl msg \<Rightarrow> Inl (Exn ValueError msg)
           | Inr f \<Rightarrow> Inr f)
      | u \<Rightarrow>
          Inl (Exn TypeError (''float() argument must be a string or a real number, not ''
                              @ quoted (type_name u))))"

text \<open>
  \<open>os.environ[name] = v\<close>: the value must be a string, and the C library cannot hold a
  null character.
\<close>

definition environ_set :: "(string \<rightharpoonup> string) \<Rightarrow> string \<Rightarrow> pyval \<Rightarrow> exn + (string \<rightharpoonup> string)" where
  "environ_set env name v =
     (case v of
        VStr s \<Rightarrow>
          if CHR 0x00 \<in> set s then Inl (Exn ValueError ''embedded null byte'')
          else Inr (env(name \<mapsto> s))
      | u \<Rightarrow> Inl (Exn TypeError (''str expected, not '' @ type_name u)))"

text \<open>\<open>os.path.join(a, b)\<close> on POSIX.\<close>

definition path_join :: "string \<Rightarrow> string \<Rightarrow> string" where
  "path_join a b =
     (if b \<noteq> [] \<and> hd b = CHR ''/'' then b
      else if a = [] \<or> last a = CHR ''/'' then a @ b
      else a @ ''/'' @ b)"

text \<open>\<open>bytes.hex()\<close> of eight bytes: sixteen lower-case hexadecimal digits.\<close>

definition hex_digit :: "nat \<Rightarrow> char" where
  "hex_digit n = ''0123456789abcdef'' ! n"

definition hex16 :: "64 word \<Rightarrow> string" where
  "hex16 w = map (\<lambda>i. hex_digit (unat (drop_bit (4 * i) w AND 0xF))) (rev [0..<16])"

subsection \<open>The generate operation\<close>

text \<open>
  Lines 70 to 80, once per provider:
  \<^verbatim>\<open>
  openai_key = data.get('openai_key')
  if openai_key:
      os.environ['OPENAI_API_KEY'] = openai_key
  \<close>
\<close>

definition set_api_key :: "addr \<Rightarrow> string \<Rightarrow> string \<Rightarrow> unit action" where
  "set_api_key data key name w =
     (let v = dict_get (store w) data key VNone in
      if truthy (store w) v then
        (case environ_set (environ w) name v of
           Inl e \<Rightarrow> (w, Inl e)
         | Inr env \<Rightarrow> (w\<lparr>environ := env\<rparr>, Inr ()))
      else (w, Inr ()))"

text \<open>
  \<open>load_base_config()\<close>: the parsed document, or a new empty dict when opening or
  parsing raised an \<open>Exception\<close> (the warning it prints is not modelled).
\<close>

definition load_base_config :: "externals \<Rightarrow> pyval action" where
  "load_base_config ext =
     (case config_loaded ext of
        Inr v \<Rightarrow> succeed v
      | Inl msg \<Rightarrow> and_then (allocate []) (\<lambda>a. succeed (VDict a)))"

text \<open>
  Line 86, after \<open>base_config.get\<close> has been looked up (\<open>b\<close> is the dict \<open>base_config\<close>):
  \<^verbatim>\<open>
  tts_model = data.get('tts_model',
      base_config.get('text_to_speech', {}).get('default_tts_model', 'openai'))
  \<close>
  The default of the outer \<open>get\<close> is an argument: it is evaluated whether or not the
  request holds \<open>tts_model\<close>.
\<close>

definition resolve_tts_model :: "addr \<Rightarrow> addr \<Rightarrow> pyval action" where
  "resolve_tts_model data b =
     and_then (get_or_empty b ''text_to_speech'') (\<lambda>tts.
     and_then (the_dict tts ''get'') (\<lambda>t w.
       (w, Inr (dict_get (store w) data ''tts_model''
                  (dict_get (store w) t ''default_tts_model'' (VStr ''openai''))))))"

text \<open>
  Line 87:
  \<^verbatim>\<open>
  tts_base_config = base_config.get('text_to_speech', {}).get(tts_model, {})
  \<close>
\<close>

definition resolve_tts_base_config :: "addr \<Rightarrow> pyval \<Rightarrow> pyval action" where
  "resolve_tts_base_config b tts_model =
     and_then (get_or_empty b ''text_to_speech'') (\<lambda>tts.
     and_then (the_dict tts ''get'') (\<lambda>t.
     and_then (allocate []) (\<lambda>e w.
       (w, dict_get_val (store w) t tts_model (VDict e)))))"

text \<open>
  Lines 94 to 113, the dict display \<open>user_config = {...}\<close>. Its values are evaluated in
  order; the nested displays are allocated innermost first. The float \<open>0.7\<close> is
  \<open>0x3FE6666666666666\<close>. The second lookup of \<open>voices.get\<close> and \<open>default_voices.get\<close>
  (for \<open>'answer'\<close>) succeeds whenever the first did and is not repeated.
\<close>

definition creativity_arg :: "heap \<Rightarrow> addr \<Rightarrow> addr \<Rightarrow> pyval" where
  "creativity_arg h data b =
     dict_get h data ''creativity'' (dict_get h b ''creativity'' (VFloat 0x3FE6666666666666))"

definition plain_fields :: "heap \<Rightarrow> addr \<Rightarrow> addr \<Rightarrow> dict" where
  "plain_fields h data b =
     [(''conversation_style'',
         dict_get h data ''conversation_style'' (dict_get h b ''conversation_style'' (VList []))),
      (''roles_person1'',
         dict_get h data ''roles_person1'' (dict_get h b ''roles_person1'' VNone)),
      (''roles_person2'',
         dict_get h data ''roles_person2'' (dict_get h b ''roles_person2'' VNone)),
      (''dialogue_structure'',
         dict_get h data ''dialogue_structure'' (dict_get h b ''dialogue_structure'' (VList []))),
      (''podcast_name'',
         dict_get h data ''name'' (dict_get h b ''podcast_name'' VNone)),
      (''podcast_tagline'',
         dict_get h data ''tagline'' (dict_get h b ''podcast_tagline'' VNone)),
      (''output_language'',
         dict_get h data ''output_language'' (dict_get h b ''output_language'' (VStr ''English''))),
      (''user_instructions'',
         dict_get h data ''user_instructions'' (dict_get h b ''user_instructions'' (VStr []))),
      (''engagement_techniques'',
         dict_get h data ''engagement_techniques''
           (dict_get h b ''engagement_techniques'' (VList [])))]"

definition build_user_config ::
  "externals \<Rightarrow> addr \<Rightarrow> addr \<Rightarrow> pyval \<Rightarrow> pyval \<Rightarrow> pyval \<Rightarrow> pyval \<Rightarrow> addr action" where
  "build_user_config ext data b tts_model tts_base_config voices default_voices =
     and_then (\<lambda>w. (w, py_float ext (creativity_arg (store w) data b))) (\<lambda>creativity.
     and_then (\<lambda>w. (w, Inr (plain_fields (store w) data b))) (\<lambda>fields.
     and_then (the_dict tts_base_config ''get'') (\<lambda>tb.
     and_then (\<lambda>w. (w, Inr (dict_get (store w) tb ''model'' VNone))) (\<lambda>model.
     and_then (the_dict voices ''get'') (\<lambda>va.
     and_then (the_dict default_voices ''get'') (\<lambda>da.
     and_then (\<lambda>w. (w, Inr
         [(''question'', dict_get (store w) va ''question'' (dict_get (store w) da ''question'' VNone)),
          (''answer'', dict_get (store w) va ''answer'' (dict_get (store w) da ''answer'' VNone))]))
       (\<lambda>voice_entries.
     and_then (allocate voice_entries) (\<lambda>dv.
     and_then (allocate
         [(''default_tts_model'', tts_model), (''model'', model), (''default_voices'', VDict dv)])
       (\<lambda>tts.
     allocate
       ((''creativity'', VFloat creativity) # fields @ [(''text_to_speech'', VDict tts)]))))))))))"

text \<open>Lines 69 to 80: the three providers, in the order of the source.\<close>

definition set_api_keys :: "addr \<Rightarrow> unit action" where
  "set_api_keys data =
     and_then (set_api_key data ''openai_key'' ''OPENAI_API_KEY'') (\<lambda>_.
     and_then (set_api_key data ''google_key'' ''GEMINI_API_KEY'') (\<lambda>_.
     set_api_key data ''elevenlabs_key'' ''ELEVENLABS_API_KEY''))"

text \<open>
  Lines 83 to 91: \<open>base_config\<close> (a dict once line 86 has looked up \<open>base_config.get\<close>),
  \<open>tts_model\<close>, \<open>tts_base_config\<close>, \<open>voices\<close> and \<open>default_voices\<close>.
\<close>

definition resolve_config ::
  "externals \<Rightarrow> addr \<Rightarrow> (addr \<times> pyval \<times> pyval \<times> pyval \<times> pyval) action" where
  "resolve_config ext data =
     and_then (load_base_config ext) (\<lambda>base_config.
     and_then (the_dict base_config ''get'') (\<lambda>b.
     and_then (resolve_tts_model data b) (\<lambda>tts_model.
     and_then (resolve_tts_base_config b tts_model) (\<lambda>tts_base_config.
     and_then (get_or_empty data ''voices'') (\<lambda>voices.
     and_then (the_dict tts_base_config ''get'') (\<lambda>tb.
     and_then (get_or_empty tb ''default_voices'') (\<lambda>default_voices.
     succeed (b, tts_model, tts_base_config, voices, default_voices))))))))"

text \<open>Line 116: \<open>merge_configs(base_config, user_config)\<close>, in the world's store.\<close>

definition call_merge_configs :: "addr \<Rightarrow> addr \<Rightarrow> addr action" where
  "call_merge_configs b user_config w =
     (case merge_configs (store w) b user_config of (h, r) \<Rightarrow> (w\<lparr>store := h\<rparr>, r))"

text \<open>
  Lines 69 to 124 up to the call of the generator: the arguments of the call, or the
  exception raised before it.
\<close>

definition prepare :: "externals \<Rightarrow> addr \<Rightarrow> gen_args action" where
  "prepare ext data =
     and_then (set_api_keys data) (\<lambda>_.
     and_then (resolve_config ext data)
       (\<lambda>(b, tts_model, tts_base_config, voices, default_voices).
     and_then (build_user_config ext data b tts_model tts_base_config voices default_voices)
       (\<lambda>user_config.
     and_then (call_merge_configs b user_config) (\<lambda>conversation_config w.
       (w, Inr \<lparr>arg_urls = dict_get (store w) data ''urls'' (VList []),
                arg_conversation_config = conversation_config,
                arg_tts_model = tts_model,
                arg_longform =
                  truthy (store w) (dict_get (store w) data ''is_long_form'' (VBool False))\<rparr>)))))"

text \<open>
  Lines 127 to 138:
  \<^verbatim>\<open>
  if isinstance(result, str) and os.path.isfile(result):
      filename = f"podcast_{os.urandom(8).hex()}.mp3"
      output_path = os.path.join(TEMP_DIR, filename)
      shutil.copy2(result, output_path)
      return {"audioUrl": f"/audio/{filename}"}
  elif hasattr(result, 'audio_path') and result.audio_path:
      (the same, from result.audio_path)
  else:
      raise HTTPException(status_code=500,
                          detail="Invalid result format or no audio generated")
  \<close>
\<close>

definition new_filename :: "externals \<Rightarrow> string" where
  "new_filename ext = ''podcast_'' @ hex16 (urandom8 ext) @ ''.mp3''"

definition save_audio :: "externals \<Rightarrow> py_object \<Rightarrow> string action" where
  "save_audio ext src =
     and_then (copy2 ext src (path_join (temp_dir ext) (new_filename ext)))
       (\<lambda>_. succeed (''/audio/'' @ new_filename ext))"

text \<open>
  \<open>str(e)\<close> of an \<open>HTTPException\<close> is, in Starlette (from which FastAPI's class inherits
  it), \<open>f"{self.status_code}: {self.detail}"\<close>.
\<close>

definition http_exception_str :: "nat \<Rightarrow> string \<Rightarrow> string" where
  "http_exception_str code detail = show_nat code @ '': '' @ detail"

definition invalid_result :: "string action" where
  "invalid_result =
     raise (Exn HTTPException
              (http_exception_str 500 ''Invalid result format or no audio generated''))"

text \<open>The \<open>elif\<close> and the \<open>else\<close>.\<close>

definition handle_audio_path :: "externals \<Rightarrow> gen_result \<Rightarrow> string action" where
  "handle_audio_path ext result =
     (case result_audio_path result of
        Some audio_path \<Rightarrow>
          if obj_truthy audio_path then save_audio ext audio_path else invalid_result
      | None \<Rightarrow> invalid_result)"

definition handle_result :: "externals \<Rightarrow> gen_result \<Rightarrow> string action" where
  "handle_result ext result w =
     (case result_str result of
        Some p \<Rightarrow>
          if files w p \<noteq> None then save_audio ext (ObjStr p) w
          else handle_audio_path ext result w
      | None \<Rightarrow> handle_audio_path ext result w)"

text \<open>
  The handler: the body under \<open>try\<close>, and
  \<^verbatim>\<open>
  except Exception as e:
      raise HTTPException(status_code=500, detail=str(e))
  \<close>
  The handler returns the value of \<open>audioUrl\<close>, or raises an \<open>HTTPException\<close>, which the
  framework answers with that status code and detail, or lets an exception pass that is
  no \<open>Exception\<close>.
\<close>

definition try_body :: "externals \<Rightarrow> addr \<Rightarrow> string action" where
  "try_body ext data =
     and_then (prepare ext data) (\<lambda>args.
     and_then (generate_podcast ext args) (handle_result ext))"

datatype response = AudioUrl string | HttpError nat string | Uncaught exn

definition generate_podcast_endpoint :: "externals \<Rightarrow> addr \<Rightarrow> world \<Rightarrow> world \<times> response" where
  "generate_podcast_endpoint ext data w =
     (case try_body ext data w of
        (w1, Inr url) \<Rightarrow> (w1, AudioUrl url)
      | (w1, Inl e) \<Rightarrow>
          if is_exception (class_of e) then (w1, HttpError 500 (message e))
          else (w1, Uncaught e))"

text \<open>The status code of the response; an exception that passes gives none.\<close>

fun status_code :: "response \<Rightarrow> nat option" where
  "status_code (AudioUrl url) = Some 200"
| "status_code (HttpError code detail) = Some code"
| "status_code (Uncaught e) = None"

subsection \<open>Frame conditions of a step\<close>


definition grows_store :: "'a action \<Rightarrow> bool" where
  "grows_store m = (\<forall>w. take (length (store w)) (store (fst (m w))) = store w)"

definition raises_exceptions_only :: "'a action \<Rightarrow> bool" where
  "raises_exceptions_only m =
     (\<forall>w. case snd (m w) of Inl e \<Rightarrow> is_exception (class_of e) | Inr x \<Rightarrow> True)"

subsection \<open>The fallback order of the specification\<close>

text \<open>
  In the specification a field of a document that is absent or null means "use the
  fallback"; \<open>provided\<close> is the value a document provides under a key. The
  specification resolves \<open>tts_model\<close> as "request value, else base
  \<open>text_to_speech.default_tts_model\<close>, else \<open>"openai"\<close>". Written out over a request dict
  \<open>data\<close> and a base configuration dict \<open>b\<close> of a store, to be compared with what line 86
  computes:
\<close>

definition provided :: "dict \<Rightarrow> string \<Rightarrow> pyval option" where
  "provided d key =
     (case map_of d key of
        Some v \<Rightarrow> if v = VNone then None else Some v
      | None \<Rightarrow> None)"

definition tts_model_fallback :: "heap \<Rightarrow> addr \<Rightarrow> addr \<Rightarrow> pyval" where
  "tts_model_fallback h data b =
     (case provided (h ! data) ''tts_model'' of
        Some v \<Rightarrow> v
      | None \<Rightarrow>
          (case map_of (h ! b) ''text_to_speech'' of
             Some (VDict t) \<Rightarrow>
               (case provided (h ! t) ''default_tts_model'' of
                  Some v \<Rightarrow> v
                | None \<Rightarrow> VStr ''openai'')
           | _ \<Rightarrow> VStr ''openai''))"

section \<open>Example stores and worlds\<close>

text \<open>
  \<open>nested_store\<close> holds configurations for the merger: at 0 a base with the sub-map
  \<open>{"a": 1, "b": 2}\<close> (at 1), at 2 an override with the sub-map \<open>{"b": 9, "c": 3}\<close> (at 3),
  at 4 an empty base, at 5 an override whose sub-map (at 6) holds a null, at 7 a base whose
  \<open>text_to_speech\<close> is a string.
\<close>

definition nested_store :: heap where
  "nested_store =
     [[(''text_to_speech'', VDict 1), (''x'', VInt 0)],
      [(''a'', VInt 1), (''b'', VInt 2)],
      [(''text_to_speech'', VDict 3), (''x'', VInt 5)],
      [(''b'', VInt 9), (''c'', VInt 3)],
      [],
      [(''text_to_speech'', VDict 6)],
      [(''a'', VNone)],
      [(''text_to_speech'', VStr ''none'')]]"

text \<open>
  \<open>example_store\<close> holds, at 0, a request body with one url and an OpenAI credential; at 1
  a base configuration with its \<open>text_to_speech\<close> section (at 2, 3 and 4); at 5 a request
  body whose \<open>creativity\<close> is the string \<open>"high"\<close>; at 6 a request body that names a
  \<open>tts_model\<close>; at 7 a base configuration whose \<open>text_to_speech\<close> is null; at 8 a request
  body whose \<open>tts_model\<close> is null. \<open>example_copy2\<close> is the \<open>shutil.copy2\<close> of the examples,
  whose sources are strings and paths that name a regular file or nothing at all, and
  whose destinations can be written: a source naming a file is copied, a source naming
  nothing gives the \<open>FileNotFoundError\<close> of Python (any other source, which no example
  has, is answered with a \<open>TypeError\<close>). In
  \<open>example_ext\<close> the configuration file parses to the dict at 1, the generator writes
  \<open>/tmp/out.mp3\<close> and returns its path, and \<open>float()\<close> rejects every string and converts
  the integers 0 and 1 only.
\<close>

definition example_store :: heap where
  "example_store =
     [[(''urls'', VList [VStr ''http://example.com'']), (''openai_key'', VStr ''sk-1'')],
      [(''text_to_speech'', VDict 2), (''creativity'', VFloat 0x3FE0000000000000)],
      [(''default_tts_model'', VStr ''elevenlabs''), (''elevenlabs'', VDict 3)],
      [(''model'', VStr ''eleven_v2''), (''default_voices'', VDict 4)],
      [(''question'', VStr ''Q1''), (''answer'', VStr ''A1'')],
      [(''creativity'', VStr ''high'')],
      [(''tts_model'', VStr ''edge'')],
      [(''text_to_speech'', VNone)],
      [(''tts_model'', VNone)]]"

definition example_world :: world where
  "example_world =
     \<lparr>store = example_store, environ = [''GEMINI_API_KEY'' \<mapsto> ''old''], files = Map.empty\<rparr>"

definition example_copy_file :: "string \<Rightarrow> string \<Rightarrow> world \<Rightarrow> world \<times> (exn + unit)" where
  "example_copy_file src dst w =
     (case files w src of
        None \<Rightarrow> (w, Inl (Exn OSError (''[Errno 2] No such file or directory: '' @ quoted src)))
      | Some content \<Rightarrow> (w\<lparr>files := (files w)(dst \<mapsto> content)\<rparr>, Inr ()))"

fun example_copy2 :: "py_object \<Rightarrow> string \<Rightarrow> world \<Rightarrow> world \<times> (exn + unit)" where
  "example_copy2 (ObjStr src) dst w = example_copy_file src dst w"
| "example_copy2 (ObjPath src) dst w = example_copy_file src dst w"
| "example_copy2 obj dst w = (w, Inl (Exn TypeError ''expected str, bytes or os.PathLike object''))"

definition example_ext :: externals where
  "example_ext =
     \<lparr>config_loaded = Inr (VDict 1),
      generate_podcast =
        (\<lambda>args w. (w\<lparr>files := (files w)(''/tmp/out.mp3'' \<mapsto> [1, 2, 3])\<rparr>,
                    Inr (Result (Some ''/tmp/out.mp3'') None))),
      copy2 = example_copy2,
      float_of_str = (\<lambda>s. Inl (''could not convert string to float: '' @ quoted s)),
      float_of_int = (\<lambda>i. if i = 0 then Some 0 else if i = 1 then Some 0x3FF0000000000000 else None),
      urandom8 = 0x0123456789ABCDEF,
      temp_dir = ''/app/temp_audio''\<rparr>"

section \<open>Properties of the config merger\<close>

subsection \<open>Auxiliary facts\<close>

lemma map_of_dict_merge:
  "distinct (map fst src) \<Longrightarrow> map_of (dict_merge dst src) = map_of dst ++ map_of src"
  unfolding dict_merge_def
proof (induction src arbitrary: dst)
  case Nil
  show ?case by simp
next
  case (Cons p src)
  obtain k v where p: "p = (k, v)" by (cases p)
  from Cons.prems have d: "distinct (map fst src)" and nk: "k \<notin> fst ` set src"
    by (auto simp: p)
  from nk have none: "map_of src k = None"
    by (simp add: map_of_eq_None_iff)
  show ?case
    using none
    by (auto simp add: p Cons.IH [OF d] update_conv' map_add_def fun_eq_iff split: option.splits)
qed

lemma map_of_assign_items:
  "distinct (map fst u) \<Longrightarrow>
   map_of (assign_items m u) k =
     (case map_of u k of
        Some v \<Rightarrow> if k \<noteq> ''text_to_speech'' \<and> v \<noteq> VNone then Some v else map_of m k
      | None \<Rightarrow> map_of m k)"
proof (induction u arbitrary: m)
  case Nil
  show ?case by simp
next
  case (Cons p u)
  obtain k' v' where p: "p = (k', v')" by (cases p)
  from Cons.prems have d: "distinct (map fst u)" and nk: "k' \<notin> fst ` set u"
    by (auto simp: p)
  from nk have none: "map_of u k' = None"
    by (simp add: map_of_eq_None_iff)
  show ?case
    using none by (auto simp add: p Cons.IH [OF d] update_conv' split: option.splits)
qed

lemma assign_items_tts:
  "map_of (assign_items m u) ''text_to_speech'' = map_of m ''text_to_speech''"
  by (induction m u rule: assign_items.induct) (auto simp: update_conv')

text \<open>
  The two ways through \<open>merge_configs\<close> that raise nothing: both arguments hold a dict
  under \<open>text_to_speech\<close>, or one of them lacks the key.
\<close>

lemma merge_configs_both_dicts:
  assumes "base < length h" "user < length h" "t < length h" "u < length h"
    and "map_of (h ! base) ''text_to_speech'' = Some (VDict t)"
    and "map_of (h ! user) ''text_to_speech'' = Some (VDict u)"
  shows "merge_configs h base user =
           (let h2 = (h @ [h ! base, []])[t := dict_merge (h ! t) (h ! u)]
            in (h2[length h := assign_items (h ! base) (h2 ! user)], Inr (length h)))"
  using assms
  by (simp add: merge_configs_def dict_copy_def new_dict_def update_text_to_speech_def
      dict_update_def nth_append Let_def nth_list_update)

lemma merge_configs_no_clash:
  assumes "user < length h"
    and "map_of (h ! base) ''text_to_speech'' = None \<or> map_of (h ! user) ''text_to_speech'' = None"
  shows "merge_configs h base user =
           ((h @ [h ! base])[length h := assign_items (h ! base) (h ! user)], Inr (length h))"
  using assms
  by (auto simp add: merge_configs_def dict_copy_def new_dict_def nth_append split: option.splits)

subsection \<open>Merge identity\<close>

text \<open>
  Claim C5. Merging any base with an empty override gives a dict equal to base: the call
  allocates one new dict holding exactly the entries of \<open>base_config\<close> (same keys in
  the same order, same values, nested dicts the same objects), raises nothing, and leaves
  every object already in the store as it was.
\<close>

theorem merge_configs_identity:
  assumes "base_config < length h" and "user_config < length h"
    and "h ! user_config = []"
  shows "merge_configs h base_config user_config = (h @ [h ! base_config], Inr (length h))"
  using assms
  by (simp add: merge_configs_def dict_copy_def new_dict_def nth_append split: option.splits)

theorem merge_configs_identity_witness:
  "merge_configs
     [[(''creativity'', VInt 1), (''text_to_speech'', VDict 1)], [(''model'', VStr ''m'')], []]
     0 2
   = ([[(''creativity'', VInt 1), (''text_to_speech'', VDict 1)], [(''model'', VStr ''m'')], [],
       [(''creativity'', VInt 1), (''text_to_speech'', VDict 1)]],
      Inr 3)"
  using merge_configs_identity
    [of 0 "[[(''creativity'', VInt 1), (''text_to_speech'', VDict 1)], [(''model'', VStr ''m'')], []]" 2]
  by simp

subsection \<open>Effects on the arguments\<close>

text \<open>
  Claim C1 says that \<open>merge_configs\<close> has no side effect and leaves both arguments
  unchanged, the nested \<open>text_to_speech\<close> sub-map of base included. The code does
  otherwise: \<open>base_config.copy()\<close> is a shallow copy, so \<open>merged['text_to_speech']\<close> is the
  very dict object \<open>base_config['text_to_speech']\<close>, and \<open>update\<close> changes that object in
  place. Whenever both arguments hold a dict under \<open>text_to_speech\<close>, the sub-map of base
  holds after the call its former entries updated with the entries of the override's
  sub-map.
\<close>

theorem merge_configs_updates_base_in_place:
  assumes "base < length h" "user < length h" "t < length h" "u < length h"
    and "map_of (h ! base) ''text_to_speech'' = Some (VDict t)"
    and "map_of (h ! user) ''text_to_speech'' = Some (VDict u)"
  shows "fst (merge_configs h base user) ! t = dict_merge (h ! t) (h ! u)"
  using assms
  by (simp add: merge_configs_both_dicts Let_def nth_list_update nth_append)

text \<open>
  With base \<open>{"text_to_speech": {"a": 1, "b": 2}, "x": 0}\<close> and override
  \<open>{"text_to_speech": {"b": 9, "c": 3}, "x": 5}\<close> the sub-map of base is
  \<open>{"a": 1, "b": 9, "c": 3}\<close> after the call.
\<close>

theorem merge_configs_updates_base_in_place_witness:
  "fst (merge_configs nested_store 0 2) ! 1 = [(''a'', VInt 1), (''b'', VInt 9), (''c'', VInt 3)]
   \<and> nested_store ! 1 = [(''a'', VInt 1), (''b'', VInt 2)]"
proof -
  have "fst (merge_configs nested_store 0 2) ! 1 = dict_merge (nested_store ! 1) (nested_store ! 3)"
    by (rule merge_configs_updates_base_in_place) (simp_all add: nested_store_def)
  then show ?thesis by (simp add: nested_store_def dict_merge_def)
qed

subsection \<open>A base without \<open>text_to_speech\<close>\<close>

text \<open>
  Claim C2 says that when base lacks \<open>text_to_speech\<close> and the override holds a non-null
  value for it, the result holds that value under \<open>text_to_speech\<close>. The code does
  otherwise: the \<open>if\<close> is skipped because base lacks the key, and the loop skips the key
  \<open>text_to_speech\<close> ("handled above"), so nothing ever stores it. Whenever base lacks the
  key, \<open>merge_configs\<close> returns a dict that lacks it too, whatever the override holds.
\<close>

theorem merge_configs_drops_text_to_speech:
  assumes "base < length h" and "user < length h"
    and "map_of (h ! base) ''text_to_speech'' = None"
  shows "snd (merge_configs h base user) = Inr (length h)
       \<and> map_of (fst (merge_configs h base user) ! length h) ''text_to_speech'' = None"
  using assms
  by (simp add: merge_configs_no_clash assign_items_tts)

text \<open>
  With the empty base and the override \<open>{"text_to_speech": {"b": 9, "c": 3}, "x": 5}\<close>
  the result has no \<open>text_to_speech\<close>.
\<close>

theorem merge_configs_drops_text_to_speech_witness:
  "map_of (nested_store ! 2) ''text_to_speech'' = Some (VDict 3)
   \<and> snd (merge_configs nested_store 4 2) = Inr 8
   \<and> map_of (fst (merge_configs nested_store 4 2) ! 8) ''text_to_speech'' = None"
proof -
  have "snd (merge_configs nested_store 4 2) = Inr (length nested_store)
      \<and> map_of (fst (merge_configs nested_store 4 2) ! length nested_store) ''text_to_speech'' = None"
    by (rule merge_configs_drops_text_to_speech) (simp_all add: nested_store_def)
  moreover have "length nested_store = 8" by (simp add: nested_store_def)
  ultimately have "snd (merge_configs nested_store 4 2) = Inr 8
      \<and> map_of (fst (merge_configs nested_store 4 2) ! 8) ''text_to_speech'' = None"
    by simp
  then show ?thesis by (simp add: nested_store_def)
qed

subsection \<open>Null values in the override\<close>

text \<open>
  Claim C3 says that a null or absent override value never erases a base value, the
  sub-keys of the \<open>text_to_speech\<close> sub-map included. The loop over the top-level keys
  tests \<open>value is not None\<close>, but the sub-map is merged by a plain \<open>update\<close>, which has no
  such test: whenever the override's sub-map holds null under a sub-key, the result's
  sub-map holds null under it, whatever base held there.
\<close>

theorem merge_configs_null_subkey:
  assumes "base < length h" "user < length h" "t < length h" "u < length h"
    and "map_of (h ! base) ''text_to_speech'' = Some (VDict t)"
    and "map_of (h ! user) ''text_to_speech'' = Some (VDict u)"
    and "distinct (map fst (h ! u))"
    and "map_of (h ! u) k = Some VNone"
  shows "snd (merge_configs h base user) = Inr (length h)
       \<and> map_of (fst (merge_configs h base user) ! length h) ''text_to_speech'' = Some (VDict t)
       \<and> map_of (fst (merge_configs h base user) ! t) k = Some VNone"
  using assms
  by (simp add: merge_configs_both_dicts Let_def nth_list_update nth_append assign_items_tts
      map_of_dict_merge)

text \<open>
  With base \<open>{"text_to_speech": {"a": 1, "b": 2}, "x": 0}\<close> and override
  \<open>{"text_to_speech": {"a": null}}\<close> the result's sub-map has null under \<open>"a"\<close>, where
  base had 1.
\<close>

theorem merge_configs_null_subkey_witness:
  "map_of (nested_store ! 1) ''a'' = Some (VInt 1)
   \<and> map_of (nested_store ! 6) ''a'' = Some VNone
   \<and> snd (merge_configs nested_store 0 5) = Inr 8
   \<and> map_of (fst (merge_configs nested_store 0 5) ! 8) ''text_to_speech'' = Some (VDict 1)
   \<and> map_of (fst (merge_configs nested_store 0 5) ! 1) ''a'' = Some VNone"
proof -
  have "snd (merge_configs nested_store 0 5) = Inr (length nested_store)
      \<and> map_of (fst (merge_configs nested_store 0 5) ! length nested_store) ''text_to_speech''
          = Some (VDict 1)
      \<and> map_of (fst (merge_configs nested_store 0 5) ! 1) ''a'' = Some VNone"
    by (rule merge_configs_null_subkey [where u = 6]) (simp_all add: nested_store_def)
  moreover have "length nested_store = 8" by (simp add: nested_store_def)
  ultimately have "snd (merge_configs nested_store 0 5) = Inr 8
      \<and> map_of (fst (merge_configs nested_store 0 5) ! 8) ''text_to_speech'' = Some (VDict 1)
      \<and> map_of (fst (merge_configs nested_store 0 5) ! 1) ''a'' = Some VNone"
    by simp
  then show ?thesis by (simp add: nested_store_def)
qed

subsection \<open>Override precedence\<close>

text \<open>
  Claim C4 is stated for every base and override. It fails where \<open>merge_configs\<close> raises:
  with a base whose \<open>text_to_speech\<close> is the string \<open>"none"\<close> and the override
  \<open>{"text_to_speech": {"b": 9, "c": 3}, "x": 5}\<close>, the call ends in an \<open>AttributeError\<close>
  (a string has no \<open>update\<close>) and returns no result, so the result does not hold 5 under
  \<open>"x"\<close>.
\<close>

theorem merge_configs_precedence_counterexample:
  "merge_configs nested_store 7 2 =
     (nested_store @ [[(''text_to_speech'', VStr ''none'')]],
      Inl (Exn AttributeError
             (quoted ''str'' @ '' object has no attribute '' @ quoted ''update'')))"
  by (simp add: merge_configs_def dict_copy_def new_dict_def update_text_to_speech_def
      no_attribute_def nested_store_def)

text \<open>
  Claim C4, amended. Let base and override be such that, when both hold the key
  \<open>text_to_speech\<close>, both values are dicts and the sub-map of base is not the override
  dict itself. Then \<open>merge_configs\<close> raises nothing and returns a new dict in which
  \<^item> every top-level key other than \<open>text_to_speech\<close> that the override holds with a
    non-null value has the override's value;
  \<^item> when both hold \<open>text_to_speech\<close>, the result's \<open>text_to_speech\<close> is the sub-map of
    base, and that sub-map holds after the call the per-sub-key merge: the override's
    entries, and the entries of base the override does not hold.
  The hypotheses on the store say that both arguments and the sub-maps are objects of
  the store and that the keys of the override and of its sub-map are distinct, as the keys
  of a dict are.
\<close>

theorem merge_configs_precedence:
  assumes "base < length h" and "user < length h"
    and "distinct (map fst (h ! user))"
    and "map_of (h ! base) ''text_to_speech'' = None
       \<or> map_of (h ! user) ''text_to_speech'' = None
       \<or> (\<exists>t u. map_of (h ! base) ''text_to_speech'' = Some (VDict t)
                \<and> map_of (h ! user) ''text_to_speech'' = Some (VDict u)
                \<and> t < length h \<and> u < length h \<and> t \<noteq> user \<and> distinct (map fst (h ! u)))"
  shows "snd (merge_configs h base user) = Inr (length h)
       \<and> (\<forall>k v. map_of (h ! user) k = Some v \<and> v \<noteq> VNone \<and> k \<noteq> ''text_to_speech'' \<longrightarrow>
             map_of (fst (merge_configs h base user) ! length h) k = Some v)
       \<and> (\<forall>t u. map_of (h ! base) ''text_to_speech'' = Some (VDict t)
                \<and> map_of (h ! user) ''text_to_speech'' = Some (VDict u) \<longrightarrow>
             map_of (fst (merge_configs h base user) ! length h) ''text_to_speech'' = Some (VDict t)
             \<and> map_of (fst (merge_configs h base user) ! t) = map_of (h ! t) ++ map_of (h ! u))"
proof -
  from assms(4) consider
      (no_clash) "map_of (h ! base) ''text_to_speech'' = None
                \<or> map_of (h ! user) ''text_to_speech'' = None"
    | (both) t u where "map_of (h ! base) ''text_to_speech'' = Some (VDict t)"
        "map_of (h ! user) ''text_to_speech'' = Some (VDict u)"
        "t < length h" "u < length h" "t \<noteq> user" "distinct (map fst (h ! u))"
    by (elim disjE exE conjE) blast+
  then show ?thesis
  proof cases
    case no_clash
    have m: "merge_configs h base user =
        ((h @ [h ! base])[length h := assign_items (h ! base) (h ! user)], Inr (length h))"
      using assms(2) no_clash by (rule merge_configs_no_clash)
    show ?thesis
      using no_clash assms(3) by (auto simp: m map_of_assign_items)
  next
    case both
    have m: "merge_configs h base user =
        (let h2 = (h @ [h ! base, []])[t := dict_merge (h ! t) (h ! u)]
         in (h2[length h := assign_items (h ! base) (h2 ! user)], Inr (length h)))"
      using assms(1,2) both(3,4,1,2) by (rule merge_configs_both_dicts)
    have user_same: "((h @ [h ! base, []])[t := dict_merge (h ! t) (h ! u)]) ! user = h ! user"
      using both(5) assms(2) by (simp add: nth_append)
    show ?thesis
      using both assms(3)
      by (auto simp: m Let_def user_same map_of_assign_items assign_items_tts nth_append
          map_of_dict_merge)
  qed
qed

text \<open>
  The example of the specification: base sub-map \<open>{"a": 1, "b": 2}\<close>, override sub-map
  \<open>{"b": 9, "c": 3}\<close>.
\<close>

theorem merge_configs_precedence_witness:
  "snd (merge_configs nested_store 0 2) = Inr 8
   \<and> map_of (fst (merge_configs nested_store 0 2) ! 8) ''x'' = Some (VInt 5)
   \<and> map_of (fst (merge_configs nested_store 0 2) ! 8) ''text_to_speech'' = Some (VDict 1)
   \<and> map_of (fst (merge_configs nested_store 0 2) ! 1) ''a'' = Some (VInt 1)
   \<and> map_of (fst (merge_configs nested_store 0 2) ! 1) ''b'' = Some (VInt 9)
   \<and> map_of (fst (merge_configs nested_store 0 2) ! 1) ''c'' = Some (VInt 3)"
proof -
  have h: "snd (merge_configs nested_store 0 2) = Inr (length nested_store)
       \<and> (\<forall>k v. map_of (nested_store ! 2) k = Some v \<and> v \<noteq> VNone \<and> k \<noteq> ''text_to_speech'' \<longrightarrow>
             map_of (fst (merge_configs nested_store 0 2) ! length nested_store) k = Some v)
       \<and> (\<forall>t u. map_of (nested_store ! 0) ''text_to_speech'' = Some (VDict t)
                \<and> map_of (nested_store ! 2) ''text_to_speech'' = Some (VDict u) \<longrightarrow>
             map_of (fst (merge_configs nested_store 0 2) ! length nested_store) ''text_to_speech''
               = Some (VDict t)
             \<and> map_of (fst (merge_configs nested_store 0 2) ! t)
               = map_of (nested_store ! t) ++ map_of (nested_store ! u))"
    by (rule merge_configs_precedence) (simp_all add: nested_store_def)
  have len: "length nested_store = 8" by (simp add: nested_store_def)
  from h have r: "snd (merge_configs nested_store 0 2) = Inr 8"
    by (simp add: len)
  from h have "map_of (nested_store ! 2) ''x'' = Some (VInt 5) \<and> VInt 5 \<noteq> VNone
       \<and> ''x'' \<noteq> ''text_to_speech'' \<longrightarrow>
       map_of (fst (merge_configs nested_store 0 2) ! 8) ''x'' = Some (VInt 5)"
    unfolding len by blast
  then have x: "map_of (fst (merge_configs nested_store 0 2) ! 8) ''x'' = Some (VInt 5)"
    by (simp add: nested_store_def)
  from h have "map_of (nested_store ! 0) ''text_to_speech'' = Some (VDict 1)
         \<and> map_of (nested_store ! 2) ''text_to_speech'' = Some (VDict 3) \<longrightarrow>
       map_of (fst (merge_configs nested_store 0 2) ! 8) ''text_to_speech'' = Some (VDict 1)
       \<and> map_of (fst (merge_configs nested_store 0 2) ! 1)
           = map_of (nested_store ! 1) ++ map_of (nested_store ! 3)"
    unfolding len by blast
  then have t: "map_of (fst (merge_configs nested_store 0 2) ! 8) ''text_to_speech'' = Some (VDict 1)"
    and s: "map_of (fst (merge_configs nested_store 0 2) ! 1)
           = map_of (nested_store ! 1) ++ map_of (nested_store ! 3)"
    by (simp_all add: nested_store_def)
  have "map_of (fst (merge_configs nested_store 0 2) ! 1) ''a'' = Some (VInt 1)"
    and "map_of (fst (merge_configs nested_store 0 2) ! 1) ''b'' = Some (VInt 9)"
    and "map_of (fst (merge_configs nested_store 0 2) ! 1) ''c'' = Some (VInt 3)"
    unfolding s by (simp_all add: nested_store_def)
  with r x t show ?thesis by blast
qed

section \<open>Properties of the request handler\<close>

subsection \<open>Sequencing\<close>

lemma and_then_InrE:
  assumes "and_then m f w = (w2, Inr y)"
  obtains w1 x where "m w = (w1, Inr x)" and "f x w1 = (w2, Inr y)"
  using assms by (auto simp: and_then_def split: prod.splits sum.splits)

subsection \<open>Steps that keep the environment\<close>
















subsection \<open>Steps that only allocate\<close>

lemma grows_storeD:
  assumes "grows_store m" and "m w = (w1, r)" and "a < length (store w)"
  shows "store w1 ! a = store w ! a"
proof -
  from assms(1,2) have t: "take (length (store w)) (store w1) = store w"
    by (auto simp: grows_store_def dest: spec [where x = w])
  have "take (length (store w)) (store w1) ! a = store w1 ! a"
    using assms(3) by simp
  with t show ?thesis by simp
qed

lemma take_take_prefix:
  assumes "take (length h) h1 = h" and "take (length h1) h2 = h1"
  shows "take (length h) h2 = h"
proof -
  have "length (take (length h) h1) = length h"
    using assms(1) by simp
  then have le: "length h \<le> length h1"
    by simp
  have "take (length h) h2 = take (length h) (take (length h1) h2)"
    using le by (simp add: min_def)
  then show ?thesis using assms by simp
qed

lemma grows_store_and_then:
  assumes "grows_store m" and "\<And>x. grows_store (f x)"
  shows "grows_store (and_then m f)"
  unfolding grows_store_def
proof
  fix w
  obtain w1 r where m: "m w = (w1, r)" by (cases "m w")
  from assms(1) m have t1: "take (length (store w)) (store w1) = store w"
    by (auto simp: grows_store_def dest: spec [where x = w])
  show "take (length (store w)) (store (fst (and_then m f w))) = store w"
  proof (cases r)
    case (Inl e)
    then show ?thesis using m t1 by (simp add: and_then_def)
  next
    case (Inr x)
    from assms(2) [of x] have "take (length (store w1)) (store (fst (f x w1))) = store w1"
      by (simp add: grows_store_def)
    with t1 have "take (length (store w)) (store (fst (f x w1))) = store w"
      by (rule take_take_prefix)
    then show ?thesis using m Inr by (simp add: and_then_def)
  qed
qed

lemma grows_store_read: "grows_store (\<lambda>w. (w, r w))"
  by (simp add: grows_store_def)

lemma grows_store_succeed: "grows_store (succeed x)"
  by (simp add: grows_store_def succeed_def)

lemma grows_store_raise: "grows_store (raise e)"
  by (simp add: grows_store_def raise_def)

lemma grows_store_allocate: "grows_store (allocate d)"
  by (simp add: grows_store_def allocate_def new_dict_def)

lemma grows_store_the_dict: "grows_store (the_dict v name)"
  by (cases v) (simp_all add: the_dict_def grows_store_succeed grows_store_raise)

lemmas grows_store_intros =
  grows_store_and_then grows_store_read grows_store_succeed grows_store_raise
  grows_store_allocate grows_store_the_dict

lemma grows_store_get_or_empty: "grows_store (get_or_empty a key)"
  unfolding get_or_empty_def by (intro grows_store_intros)

lemma grows_store_load: "grows_store (load_base_config ext)"
  unfolding load_base_config_def by (cases "config_loaded ext") (auto intro!: grows_store_intros)

lemma grows_store_resolve_tts_model: "grows_store (resolve_tts_model data b)"
  unfolding resolve_tts_model_def by (intro grows_store_intros grows_store_get_or_empty)

lemma grows_store_resolve_tts_base_config: "grows_store (resolve_tts_base_config b m)"
  unfolding resolve_tts_base_config_def by (intro grows_store_intros grows_store_get_or_empty)

lemma grows_store_resolve_config: "grows_store (resolve_config ext data)"
  unfolding resolve_config_def
  by (intro grows_store_intros grows_store_get_or_empty grows_store_load
      grows_store_resolve_tts_model grows_store_resolve_tts_base_config)

subsection \<open>Steps that raise exceptions only\<close>

lemma raises_exceptions_onlyD:
  assumes "raises_exceptions_only m" and "m w = (w1, Inl e)"
  shows "is_exception (class_of e)"
  using assms by (auto simp: raises_exceptions_only_def dest: spec [where x = w])

lemma raises_only_and_then:
  assumes "raises_exceptions_only m" and "\<And>x. raises_exceptions_only (f x)"
  shows "raises_exceptions_only (and_then m f)"
  unfolding raises_exceptions_only_def
proof
  fix w
  obtain w1 r where m: "m w = (w1, r)" by (cases "m w")
  show "case snd (and_then m f w) of Inl e \<Rightarrow> is_exception (class_of e) | Inr x \<Rightarrow> True"
  proof (cases r)
    case (Inl e)
    with m assms(1) have "is_exception (class_of e)"
      by (auto dest: raises_exceptions_onlyD)
    then show ?thesis using m Inl by (simp add: and_then_def)
  next
    case (Inr x)
    from assms(2) [of x] show ?thesis
      using m Inr by (simp add: and_then_def raises_exceptions_only_def)
  qed
qed

lemma raises_only_value: "raises_exceptions_only (\<lambda>w. (w, Inr (r w)))"
  by (simp add: raises_exceptions_only_def)

lemma raises_only_succeed: "raises_exceptions_only (succeed x)"
  by (simp add: raises_exceptions_only_def succeed_def)

lemma raises_only_allocate: "raises_exceptions_only (allocate d)"
  by (simp add: raises_exceptions_only_def allocate_def new_dict_def)

lemma raises_only_the_dict: "raises_exceptions_only (the_dict v name)"
  by (cases v)
    (simp_all add: the_dict_def raises_exceptions_only_def succeed_def raise_def no_attribute_def)

lemma raises_only_dict_get_val:
  "raises_exceptions_only (\<lambda>w. (w, dict_get_val (store w) t key dflt))"
  by (cases key) (simp_all add: raises_exceptions_only_def dict_get_val_def unhashable_def)

lemma raises_only_py_float: "raises_exceptions_only (\<lambda>w. (w, py_float ext (v w)))"
  by (auto simp: raises_exceptions_only_def py_float_def split: pyval.splits option.splits sum.splits)

lemmas raises_only_intros =
  raises_only_and_then raises_only_value raises_only_succeed raises_only_allocate
  raises_only_the_dict raises_only_dict_get_val raises_only_py_float

lemma raises_only_get_or_empty: "raises_exceptions_only (get_or_empty a key)"
  unfolding get_or_empty_def by (intro raises_only_intros)

lemma raises_only_load: "raises_exceptions_only (load_base_config ext)"
  unfolding load_base_config_def
  by (cases "config_loaded ext") (auto intro!: raises_only_intros)

lemma raises_only_resolve_tts_model: "raises_exceptions_only (resolve_tts_model data b)"
  unfolding resolve_tts_model_def by (intro raises_only_intros raises_only_get_or_empty)

lemma raises_only_resolve_tts_base_config:
  "raises_exceptions_only (resolve_tts_base_config b m)"
  unfolding resolve_tts_base_config_def by (intro raises_only_intros raises_only_get_or_empty)

lemma raises_only_resolve_config: "raises_exceptions_only (resolve_config ext data)"
  unfolding resolve_config_def
  by (intro raises_only_intros raises_only_get_or_empty raises_only_load
      raises_only_resolve_tts_model raises_only_resolve_tts_base_config)

lemma raises_only_build: "raises_exceptions_only (build_user_config ext data b m tb v dv)"
  unfolding build_user_config_def by (intro raises_only_intros)

lemma merge_from_seq2_raises:
  "merge_from_seq2 h t i items = (h1, Some e) \<Longrightarrow> is_exception (class_of e)"
proof (induction h t i items rule: merge_from_seq2.induct)
  case (1 h t i)
  then show ?case by simp
next
  case (2 h t i item items)
  show ?case
  proof (cases "iter_items h item")
    case None
    with "2.prems" show ?thesis by auto
  next
    case (Some kv)
    show ?thesis
    proof (cases "length kv = 2")
      case False
      with Some "2.prems" show ?thesis by auto
    next
      case True
      show ?thesis
      proof (cases "kv ! 0")
        case (VStr k)
        with Some True "2.prems"
        have "merge_from_seq2 (h[t := AList.update k (kv ! 1) (h ! t)]) t (Suc i) items =
            (h1, Some e)"
          by simp
        with "2.IH" [OF Some _ VStr] True show ?thesis by simp
      qed (insert Some True "2.prems", auto simp: unhashable_def)
    qed
  qed
qed

lemma dict_update_raises:
  "dict_update h t arg = (h1, Some e) \<Longrightarrow> is_exception (class_of e)"
  by (cases arg) (auto simp: dict_update_def not_iterable_def dest: merge_from_seq2_raises)

lemma merge_configs_raises:
  assumes "merge_configs h base user = (h1, Inl e)"
  shows "is_exception (class_of e)"
  using assms
  by (auto simp: merge_configs_def dict_copy_def new_dict_def update_text_to_speech_def
      no_attribute_def Let_def
      split: prod.splits option.splits pyval.splits dest: dict_update_raises)

lemma raises_only_merge: "raises_exceptions_only (call_merge_configs b u)"
  by (auto simp: raises_exceptions_only_def call_merge_configs_def
      split: prod.splits sum.splits dest: merge_configs_raises)

lemma raises_only_set_api_key: "raises_exceptions_only (set_api_key data key name)"
  by (auto simp: raises_exceptions_only_def set_api_key_def Let_def environ_set_def
      split: sum.splits pyval.splits if_splits)

lemma raises_only_set_api_keys: "raises_exceptions_only (set_api_keys data)"
  unfolding set_api_keys_def by (intro raises_only_intros raises_only_set_api_key)

lemma raises_only_prepare: "raises_exceptions_only (prepare ext data)"
  unfolding prepare_def
proof (intro raises_only_and_then raises_only_set_api_keys raises_only_resolve_config)
  fix u :: unit and x :: "addr \<times> pyval \<times> pyval \<times> pyval \<times> pyval"
  obtain b tts_model tts_base_config voices default_voices
    where x: "x = (b, tts_model, tts_base_config, voices, default_voices)"
    by (cases x) auto
  show "raises_exceptions_only
          (case x of
             (b, tts_model, tts_base_config, voices, default_voices) \<Rightarrow>
               and_then (build_user_config ext data b tts_model tts_base_config voices default_voices)
                 (\<lambda>user_config.
                    and_then (call_merge_configs b user_config) (\<lambda>conversation_config w.
                      (w, Inr \<lparr>arg_urls = dict_get (store w) data ''urls'' (VList []),
                               arg_conversation_config = conversation_config,
                               arg_tts_model = tts_model,
                               arg_longform =
                                 truthy (store w)
                                   (dict_get (store w) data ''is_long_form'' (VBool False))\<rparr>))))"
    unfolding x prod.case
    by (intro raises_only_and_then raises_only_build raises_only_merge raises_only_value)
qed

subsection \<open>The stages of \<open>prepare\<close>\<close>

lemma resolve_config_base:
  assumes "config_loaded ext = Inr (VDict b)"
    and "resolve_config ext data w = (w1, Inr (b', tts_model, rest))"
  shows "b' = b \<and> snd (resolve_tts_model data b w) = Inr tts_model"
  using assms
  unfolding resolve_config_def load_base_config_def
  by (auto simp: succeed_def the_dict_def elim!: and_then_InrE)

lemma prepare_InrE:
  assumes "prepare ext data w = (w1, Inr args)"
  obtains wa wb wc wd b tts_model tts_base_config voices default_voices user_config
  where "set_api_keys data w = (wa, Inr ())"
    and "resolve_config ext data wa =
           (wb, Inr (b, tts_model, tts_base_config, voices, default_voices))"
    and "build_user_config ext data b tts_model tts_base_config voices default_voices wb =
           (wc, Inr user_config)"
    and "call_merge_configs b user_config wc = (w1, Inr (arg_conversation_config args))"
    and "arg_tts_model args = tts_model"
  using assms unfolding prepare_def
  by (auto elim!: and_then_InrE)

lemma resolve_config_failed_load:
  assumes "config_loaded ext = Inl e"
    and "resolve_config ext data w = (w1, Inr (b', tts_model, rest))"
  shows "b' = length (store w)
       \<and> snd (resolve_tts_model data (length (store w)) (w\<lparr>store := store w @ [[]]\<rparr>)) = Inr tts_model"
  using assms
  unfolding resolve_config_def load_base_config_def
  by (auto simp: succeed_def the_dict_def allocate_def new_dict_def elim!: and_then_InrE)

lemma tts_model_fallback_empty_base:
  assumes "data < length h"
  shows "tts_model_fallback (h @ [[]]) data (length h) =
           (case provided (h ! data) ''tts_model'' of Some v \<Rightarrow> v | None \<Rightarrow> VStr ''openai'')"
  using assms by (simp add: tts_model_fallback_def nth_append split: option.splits)

lemma build_user_config_InrD:
  assumes "build_user_config ext data b tm tb v dv w = (w1, Inr u)"
  shows "\<exists>f. py_float ext (creativity_arg (store w) data b) = Inr f"
  using assms unfolding build_user_config_def
  by (auto elim!: and_then_InrE)

subsection \<open>The credentials\<close>

lemma set_api_key_store:
  "set_api_key data key name w = (w1, r) \<Longrightarrow> store w1 = store w \<and> files w1 = files w"
  by (auto simp: set_api_key_def Let_def split: if_splits sum.splits)

lemma set_api_keys_store:
  "set_api_keys data w = (w1, r) \<Longrightarrow> store w1 = store w \<and> files w1 = files w"
  unfolding set_api_keys_def and_then_def
  by (auto split: prod.splits sum.splits dest!: set_api_key_store)





subsection \<open>File names\<close>

lemma hex_digit_in: "n < 16 \<Longrightarrow> hex_digit n \<in> set ''0123456789abcdef''"
  unfolding hex_digit_def by (rule nth_mem) simp

lemma nibble_less: "unat ((x :: 64 word) AND 0xF) < 16"
proof -
  have "x AND 0xF \<le> 0xF" by (rule word_and_le1)
  then have "unat (x AND 0xF) \<le> unat (0xF :: 64 word)" by (simp add: word_le_nat_alt)
  then show ?thesis by simp
qed

lemma hex16_shape: "length (hex16 w) = 16 \<and> set (hex16 w) \<subseteq> set ''0123456789abcdef''"
proof -
  have "length (hex16 w) = 16" by (simp add: hex16_def)
  moreover have "set (hex16 w) \<subseteq> set ''0123456789abcdef''"
    unfolding hex16_def using hex_digit_in [OF nibble_less] by auto
  ultimately show ?thesis by simp
qed

lemma hex_digit_inj:
  assumes "n < 16" and "m < 16" and "hex_digit n = hex_digit m"
  shows "n = m"
proof -
  have "distinct ''0123456789abcdef''" by simp
  moreover have "n < length ''0123456789abcdef''" "m < length ''0123456789abcdef''"
    using assms by simp_all
  ultimately show ?thesis
    using assms(3) unfolding hex_digit_def by (simp only: nth_eq_iff_index_eq)
qed

lemma nibble_bit:
  "bit (drop_bit (4 * i) (w :: 64 word) AND 0xF) k = (k < 4 \<and> bit w (4 * i + k))"
proof -
  have m: "(0xF :: 64 word) = mask 4" by (simp add: mask_eq_exp_minus_1)
  have "bit (drop_bit (4 * i) w AND mask 4) k = (k < 4 \<and> bit w (4 * i + k))"
    by (simp only: bit_and_iff bit_mask_iff bit_drop_bit_eq)
      (auto dest: bit_imp_le_length simp: possible_bit_word)
  then show ?thesis unfolding m .
qed

text \<open>Different random bytes give different hexadecimal strings, hence different names.\<close>

lemma hex16_inj:
  assumes "hex16 w = hex16 v"
  shows "w = v"
proof (rule bit_word_eqI)
  fix n
  assume n: "n < LENGTH(64)"
  let ?i = "n div 4"
  from n have i: "?i < 16" by simp
  from assms have "\<forall>i \<in> set (rev [0..<16]).
      hex_digit (unat (drop_bit (4 * i) w AND 0xF)) = hex_digit (unat (drop_bit (4 * i) v AND 0xF))"
    unfolding hex16_def by (simp only: map_eq_conv)
  with i have "hex_digit (unat (drop_bit (4 * ?i) w AND 0xF)) =
      hex_digit (unat (drop_bit (4 * ?i) v AND 0xF))"
    by simp
  then have "unat (drop_bit (4 * ?i) w AND 0xF) = unat (drop_bit (4 * ?i) v AND 0xF)"
    using nibble_less hex_digit_inj by blast
  then have "drop_bit (4 * ?i) w AND 0xF = drop_bit (4 * ?i) v AND 0xF"
    by (simp add: word_unat_eq_iff)
  then have "bit (drop_bit (4 * ?i) w AND 0xF) (n mod 4) =
      bit (drop_bit (4 * ?i) v AND 0xF) (n mod 4)"
    by simp
  then show "bit w n = bit v n"
    unfolding nibble_bit by simp
qed

lemma new_filename_inj:
  assumes "new_filename ext' = new_filename ext"
  shows "urandom8 ext' = urandom8 ext"
  using assms by (simp add: new_filename_def hex16_inj)

subsection \<open>The example world\<close>

lemmas handler_defs =
  generate_podcast_endpoint_def try_body_def prepare_def set_api_keys_def resolve_config_def
  call_merge_configs_def and_then_def set_api_key_def
  dict_get_def environ_set_def load_base_config_def succeed_def raise_def the_dict_def
  resolve_tts_model_def get_or_empty_def allocate_def new_dict_def resolve_tts_base_config_def
  dict_get_val_def build_user_config_def py_float_def creativity_arg_def plain_fields_def
  merge_configs_def dict_copy_def update_text_to_speech_def dict_update_def dict_merge_def
  handle_result_def handle_audio_path_def save_audio_def path_join_def new_filename_def
  invalid_result_def http_exception_str_def
  no_attribute_def not_iterable_def unhashable_def quoted_def

lemmas example_defs = example_ext_def example_world_def example_store_def example_copy_file_def

lemma hex16_example: "hex16 0x0123456789ABCDEF = ''0123456789abcdef''"
  by (simp add: hex16_def hex_digit_def upt_rec drop_bit_eq_div)

lemma example_prepare:
  "snd (prepare example_ext 0 example_world) =
     Inr \<lparr>arg_urls = VList [VStr ''http://example.com''], arg_conversation_config = 17,
          arg_tts_model = VStr ''elevenlabs'', arg_longform = False\<rparr>"
  by (simp add: handler_defs example_ext_def example_world_def example_store_def)

lemma invalid_result_message:
  "http_exception_str 500 ''Invalid result format or no audio generated'' =
     ''500: Invalid result format or no audio generated''"
  by (simp add: http_exception_str_def)

subsection \<open>Resolution of \<open>tts_model\<close>\<close>

lemma resolve_tts_model_value:
  assumes "data < length (store w)" and "b < length (store w)"
    and "map_of (store w ! data) ''tts_model'' \<noteq> Some VNone"
    and "map_of (store w ! b) ''text_to_speech'' = None
       \<or> (\<exists>t. map_of (store w ! b) ''text_to_speech'' = Some (VDict t) \<and> t < length (store w)
              \<and> (map_of (store w ! data) ''tts_model'' = None \<longrightarrow>
                    map_of (store w ! t) ''default_tts_model'' \<noteq> Some VNone))"
  shows "resolve_tts_model data b w =
           (w\<lparr>store := store w @ [[]]\<rparr>, Inr (tts_model_fallback (store w) data b))"
  using assms
  by (auto simp add: resolve_tts_model_def get_or_empty_def and_then_def allocate_def new_dict_def
      dict_get_def the_dict_def succeed_def raise_def nth_append tts_model_fallback_def
      provided_def
      split: option.splits)

text \<open>
  Claim C6 is stated for every loaded base configuration. It fails for a configuration
  whose \<open>text_to_speech\<close> is null: the default argument of \<open>data.get('tts_model', ...)\<close> is
  evaluated although the request names a \<open>tts_model\<close>, \<open>None.get\<close> raises an
  \<open>AttributeError\<close>, and the request ends in HTTP 500 with no \<open>tts_model\<close> resolved.
\<close>

theorem generate_tts_model_counterexample:
  "map_of (example_store ! 6) ''tts_model'' = Some (VStr ''edge'')
   \<and> map_of (example_store ! 7) ''text_to_speech'' = Some VNone
   \<and> snd (generate_podcast_endpoint (example_ext\<lparr>config_loaded := Inr (VDict 7)\<rparr>) 6 example_world)
       = HttpError 500 (quoted ''NoneType'' @ '' object has no attribute '' @ quoted ''get'')"
  by (simp add: handler_defs example_defs)

text \<open>
  Claim C6, amended. Let the request body be a dict of the store whose \<open>tts_model\<close> is
  not null.
  \<^item> For a base configuration that is a dict of the store whose \<open>text_to_speech\<close> is absent
    or a dict of the store (with a \<open>default_tts_model\<close> that is not null, when the request
    names no \<open>tts_model\<close>), line 86 raises nothing and gives \<open>tts_model_fallback\<close>: the
    request's \<open>tts_model\<close> if the request provides one, else the \<open>default_tts_model\<close> of the
    base \<open>text_to_speech\<close> if present, else \<open>"openai"\<close>. When the configuration file loads
    to that dict, this is the \<open>tts_model\<close> the generator is called with.
  \<^item> When loading the configuration file fails, the base configuration is the empty dict,
    and the generator is called with the request's \<open>tts_model\<close> if the request provides
    one, else with \<open>"openai"\<close>.

  A \<open>tts_model\<close> or a \<open>default_tts_model\<close> that is null is left aside: the theorem says
  nothing about it.
\<close>

theorem generate_tts_model:
  assumes "data < length (store w)"
    and "map_of (store w ! data) ''tts_model'' \<noteq> Some VNone"
  shows "(\<forall>b. b < length (store w)
            \<and> (map_of (store w ! b) ''text_to_speech'' = None
               \<or> (\<exists>t. map_of (store w ! b) ''text_to_speech'' = Some (VDict t)
                      \<and> t < length (store w)
                      \<and> (map_of (store w ! data) ''tts_model'' = None \<longrightarrow>
                            map_of (store w ! t) ''default_tts_model'' \<noteq> Some VNone))) \<longrightarrow>
            snd (resolve_tts_model data b w) = Inr (tts_model_fallback (store w) data b)
          \<and> (\<forall>w1 args. config_loaded ext = Inr (VDict b) \<and> prepare ext data w = (w1, Inr args) \<longrightarrow>
                arg_tts_model args = tts_model_fallback (store w) data b))
       \<and> (\<forall>msg w1 args. config_loaded ext = Inl msg \<and> prepare ext data w = (w1, Inr args) \<longrightarrow>
            arg_tts_model args =
              (case provided (store w ! data) ''tts_model'' of
                 Some v \<Rightarrow> v
               | None \<Rightarrow> VStr ''openai''))"
proof (intro conjI allI impI; (elim conjE)?)
  fix b
  assume b: "b < length (store w)"
    and shape: "map_of (store w ! b) ''text_to_speech'' = None
       \<or> (\<exists>t. map_of (store w ! b) ''text_to_speech'' = Some (VDict t) \<and> t < length (store w)
              \<and> (map_of (store w ! data) ''tts_model'' = None \<longrightarrow>
                    map_of (store w ! t) ''default_tts_model'' \<noteq> Some VNone))"
  show "snd (resolve_tts_model data b w) = Inr (tts_model_fallback (store w) data b)"
    using assms b shape by (simp add: resolve_tts_model_value)
  fix w1 args
  assume loaded: "config_loaded ext = Inr (VDict b)"
    and "prepare ext data w = (w1, Inr args)"
  then obtain wa wb b' tts_model rest
    where keys: "set_api_keys data w = (wa, Inr ())"
      and res: "resolve_config ext data wa = (wb, Inr (b', tts_model, rest))"
      and arg: "arg_tts_model args = tts_model"
    by (elim prepare_InrE)
  from keys have st: "store wa = store w"
    by (simp add: set_api_keys_store)
  from resolve_config_base [OF loaded res]
  have "snd (resolve_tts_model data b wa) = Inr tts_model" by simp
  moreover have "snd (resolve_tts_model data b wa) = Inr (tts_model_fallback (store w) data b)"
    using assms b shape st by (simp add: resolve_tts_model_value)
  ultimately show "arg_tts_model args = tts_model_fallback (store w) data b"
    using arg by simp
next
  fix msg w1 args
  assume failed: "config_loaded ext = Inl msg"
    and "prepare ext data w = (w1, Inr args)"
  then obtain wa wb b' tts_model rest
    where keys: "set_api_keys data w = (wa, Inr ())"
      and res: "resolve_config ext data wa = (wb, Inr (b', tts_model, rest))"
      and arg: "arg_tts_model args = tts_model"
    by (elim prepare_InrE)
  from keys have st: "store wa = store w"
    by (simp add: set_api_keys_store)
  let ?w = "wa\<lparr>store := store wa @ [[]]\<rparr>"
  from resolve_config_failed_load [OF failed res]
  have "snd (resolve_tts_model data (length (store wa)) ?w) = Inr tts_model"
    by simp
  moreover have "snd (resolve_tts_model data (length (store wa)) ?w) =
      Inr (tts_model_fallback (store ?w) data (length (store wa)))"
    using assms st by (subst resolve_tts_model_value) (simp_all add: nth_append)
  ultimately show "arg_tts_model args =
      (case provided (store w ! data) ''tts_model'' of Some v \<Rightarrow> v | None \<Rightarrow> VStr ''openai'')"
    using arg assms st by (simp add: tts_model_fallback_empty_base)
qed

text \<open>
  In the example world the request at 0 names no \<open>tts_model\<close> and the generator is called
  with the base default \<open>"elevenlabs"\<close>; for the request at 6 line 86 gives the request's
  \<open>"edge"\<close>.
\<close>

theorem generate_tts_model_witness:
  "(case snd (prepare example_ext 0 example_world) of
      Inr args \<Rightarrow> arg_tts_model args = VStr ''elevenlabs''
    | Inl e \<Rightarrow> False)
   \<and> snd (resolve_tts_model 6 1 example_world) = Inr (VStr ''edge'')"
proof -
  have d: "0 < length (store example_world)" "6 < length (store example_world)"
    by (simp_all add: example_world_def example_store_def)
  have n: "map_of (store example_world ! 0) ''tts_model'' \<noteq> Some VNone"
    "map_of (store example_world ! 6) ''tts_model'' \<noteq> Some VNone"
    by (simp_all add: example_world_def example_store_def)
  have b0: "1 < length (store example_world)
      \<and> (map_of (store example_world ! 1) ''text_to_speech'' = None
         \<or> (\<exists>t. map_of (store example_world ! 1) ''text_to_speech'' = Some (VDict t)
                \<and> t < length (store example_world)
                \<and> (map_of (store example_world ! 0) ''tts_model'' = None \<longrightarrow>
                      map_of (store example_world ! t) ''default_tts_model'' \<noteq> Some VNone)))"
    by (simp add: example_world_def example_store_def)
  have b6: "1 < length (store example_world)
      \<and> (map_of (store example_world ! 1) ''text_to_speech'' = None
         \<or> (\<exists>t. map_of (store example_world ! 1) ''text_to_speech'' = Some (VDict t)
                \<and> t < length (store example_world)
                \<and> (map_of (store example_world ! 6) ''tts_model'' = None \<longrightarrow>
                      map_of (store example_world ! t) ''default_tts_model'' \<noteq> Some VNone)))"
    by (simp add: example_world_def example_store_def)
  have l: "config_loaded example_ext = Inr (VDict 1)"
    by (simp add: example_ext_def)
  obtain w1 where p: "prepare example_ext 0 example_world =
      (w1, Inr \<lparr>arg_urls = VList [VStr ''http://example.com''], arg_conversation_config = 17,
                arg_tts_model = VStr ''elevenlabs'', arg_longform = False\<rparr>)"
    using example_prepare by (cases "prepare example_ext 0 example_world") simp
  from generate_tts_model [OF d(1) n(1), of example_ext] b0 l p
  have "VStr ''elevenlabs'' = tts_model_fallback (store example_world) 0 1"
    by fastforce
  moreover
  from generate_tts_model [OF d(2) n(2), of example_ext, THEN conjunct1, rule_format, OF b6]
  have "snd (resolve_tts_model 6 1 example_world) = Inr (tts_model_fallback (store example_world) 6 1)"
    by (rule conjunct1)
  moreover have "tts_model_fallback (store example_world) 6 1 = VStr ''edge''"
    by (simp add: tts_model_fallback_def provided_def example_world_def example_store_def)
  ultimately show ?thesis using p by simp
qed

text \<open>
  What is left aside: for the request at 8, whose \<open>tts_model\<close> is null, line 86 gives
  \<open>None\<close>, where the fallback order gives the base default.
\<close>

lemma resolve_tts_model_null_request:
  "map_of (example_store ! 8) ''tts_model'' = Some VNone
   \<and> snd (resolve_tts_model 8 1 example_world) = Inr VNone
   \<and> tts_model_fallback (store example_world) 8 1 = VStr ''elevenlabs''"
  by (simp add: resolve_tts_model_def get_or_empty_def and_then_def allocate_def new_dict_def
      dict_get_def the_dict_def succeed_def tts_model_fallback_def provided_def
      example_world_def example_store_def)

subsection \<open>The generator's result\<close>

lemma endpoint_after_generator:
  assumes "prepare ext data w = (w1, Inr args)"
    and "generate_podcast ext args w1 = (w2, Inr result)"
  shows "generate_podcast_endpoint ext data w =
      (case handle_result ext result w2 of
         (w3, Inr url) \<Rightarrow> (w3, AudioUrl url)
       | (w3, Inl e) \<Rightarrow>
           if is_exception (class_of e) then (w3, HttpError 500 (message e))
           else (w3, Uncaught e))"
  using assms by (simp add: generate_podcast_endpoint_def try_body_def and_then_def)

lemma save_audio_copied:
  assumes "copy2 ext src (path_join (temp_dir ext) (new_filename ext)) w = (w3, Inr ())"
  shows "save_audio ext src w = (w3, Inr (''/audio/'' @ new_filename ext))"
  using assms by (simp add: save_audio_def and_then_def succeed_def)

lemma save_audio_failed:
  assumes "copy2 ext src (path_join (temp_dir ext) (new_filename ext)) w = (w3, Inl e)"
  shows "save_audio ext src w = (w3, Inl e)"
  using assms by (simp add: save_audio_def and_then_def)

lemma handle_result_str:
  assumes "result_str result = Some p" and "files w p \<noteq> None"
  shows "handle_result ext result w = save_audio ext (ObjStr p) w"
  using assms by (simp add: handle_result_def)

lemma handle_result_audio_path:
  assumes "\<forall>p. result_str result = Some p \<longrightarrow> files w p = None"
    and "result_audio_path result = Some a" and "obj_truthy a"
  shows "handle_result ext result w = save_audio ext a w"
  using assms by (simp add: handle_result_def handle_audio_path_def split: option.splits)

lemma handle_result_invalid:
  assumes "\<forall>p. result_str result = Some p \<longrightarrow> files w p = None"
    and "\<forall>a. result_audio_path result = Some a \<longrightarrow> \<not> obj_truthy a"
  shows "handle_result ext result w =
           (w, Inl (Exn HTTPException ''500: Invalid result format or no audio generated''))"
  using assms
  by (simp add: handle_result_def handle_audio_path_def invalid_result_def raise_def
      invalid_result_message split: option.splits)

text \<open>
  Claim C7 says that an object with a non-empty \<open>audio_path\<close> always leads to a copy and
  an \<open>audioUrl\<close>. It fails when the copy fails, as it does when \<open>audio_path\<close> names no file:
  \<open>shutil.copy2\<close> raises and the request ends in HTTP 500.
\<close>

theorem generate_result_handling_counterexample:
  "snd (generate_podcast_endpoint
          (example_ext\<lparr>generate_podcast :=
             (\<lambda>args w. (w, Inr (Result None (Some (ObjStr ''/nonexistent.mp3'')))))\<rparr>)
          0 example_world)
     = HttpError 500 (''[Errno 2] No such file or directory: '' @ quoted ''/nonexistent.mp3'')"
  by (simp add: handler_defs example_defs)

text \<open>
  Claim C7, amended. Whenever the generator has been called and has returned a result:
  \<^item> the file name is \<open>podcast_\<close>, sixteen hexadecimal digits and \<open>.mp3\<close>; it is fresh in
    that the digits are the eight random bytes drawn for this request, and other bytes
    give another name;
  \<^item> if the result is a string naming an existing file, the source is that string;
    otherwise, if the result has an \<open>audio_path\<close> that is true (not \<open>None\<close>, not empty),
    the source is that \<open>audio_path\<close>. The handler calls \<open>shutil.copy2\<close> from the source to
    \<open>TEMP_DIR/<file name>\<close>; when the copy returns, the answer is
    \<open>audioUrl = /audio/<file name>\<close>, in the world the copy leaves; when the copy raises
    an \<open>Exception\<close>, the request fails with HTTP 500;
  \<^item> for every other result the request fails with HTTP 500.
\<close>

theorem generate_result_handling:
  assumes "prepare ext data w = (w1, Inr args)"
    and "generate_podcast ext args w1 = (w2, Inr result)"
  shows "new_filename ext = ''podcast_'' @ hex16 (urandom8 ext) @ ''.mp3''
       \<and> length (hex16 (urandom8 ext)) = 16
       \<and> set (hex16 (urandom8 ext)) \<subseteq> set ''0123456789abcdef''
       \<and> (\<forall>ext'. new_filename ext' = new_filename ext \<longrightarrow> urandom8 ext' = urandom8 ext)
       \<and> (\<forall>src w3.
             ((\<exists>p. result_str result = Some p \<and> files w2 p \<noteq> None \<and> src = ObjStr p)
              \<or> ((\<forall>p. result_str result = Some p \<longrightarrow> files w2 p = None)
                  \<and> result_audio_path result = Some src \<and> obj_truthy src)) \<longrightarrow>
             (copy2 ext src (path_join (temp_dir ext) (new_filename ext)) w2 = (w3, Inr ()) \<longrightarrow>
                generate_podcast_endpoint ext data w =
                  (w3, AudioUrl (''/audio/'' @ new_filename ext)))
           \<and> (\<forall>e. copy2 ext src (path_join (temp_dir ext) (new_filename ext)) w2 = (w3, Inl e)
                   \<and> is_exception (class_of e) \<longrightarrow>
                  generate_podcast_endpoint ext data w = (w3, HttpError 500 (message e))))
       \<and> ((\<forall>p. result_str result = Some p \<longrightarrow> files w2 p = None)
            \<and> (\<forall>a. result_audio_path result = Some a \<longrightarrow> \<not> obj_truthy a) \<longrightarrow>
            generate_podcast_endpoint ext data w =
              (w2, HttpError 500 ''500: Invalid result format or no audio generated''))"
proof -
  note run = endpoint_after_generator [OF assms]
  let ?dst = "path_join (temp_dir ext) (new_filename ext)"
  have name: "new_filename ext = ''podcast_'' @ hex16 (urandom8 ext) @ ''.mp3''"
    by (simp add: new_filename_def)
  have fresh: "\<forall>ext'. new_filename ext' = new_filename ext \<longrightarrow> urandom8 ext' = urandom8 ext"
    by (intro allI impI) (rule new_filename_inj)
  have copy: "\<forall>src w3.
             ((\<exists>p. result_str result = Some p \<and> files w2 p \<noteq> None \<and> src = ObjStr p)
              \<or> ((\<forall>p. result_str result = Some p \<longrightarrow> files w2 p = None)
                  \<and> result_audio_path result = Some src \<and> obj_truthy src)) \<longrightarrow>
             (copy2 ext src ?dst w2 = (w3, Inr ()) \<longrightarrow>
                generate_podcast_endpoint ext data w =
                  (w3, AudioUrl (''/audio/'' @ new_filename ext)))
           \<and> (\<forall>e. copy2 ext src ?dst w2 = (w3, Inl e) \<and> is_exception (class_of e) \<longrightarrow>
                  generate_podcast_endpoint ext data w = (w3, HttpError 500 (message e)))"
  proof (intro allI impI)
    fix src w3
    assume "(\<exists>p. result_str result = Some p \<and> files w2 p \<noteq> None \<and> src = ObjStr p)
              \<or> ((\<forall>p. result_str result = Some p \<longrightarrow> files w2 p = None)
                  \<and> result_audio_path result = Some src \<and> obj_truthy src)"
    then have h: "handle_result ext result w2 = save_audio ext src w2"
      by (auto simp: handle_result_str handle_result_audio_path)
    show "(copy2 ext src ?dst w2 = (w3, Inr ()) \<longrightarrow>
                generate_podcast_endpoint ext data w =
                  (w3, AudioUrl (''/audio/'' @ new_filename ext)))
           \<and> (\<forall>e. copy2 ext src ?dst w2 = (w3, Inl e) \<and> is_exception (class_of e) \<longrightarrow>
                  generate_podcast_endpoint ext data w = (w3, HttpError 500 (message e)))"
    proof (intro conjI allI impI; (elim conjE)?)
      assume c: "copy2 ext src ?dst w2 = (w3, Inr ())"
      show "generate_podcast_endpoint ext data w =
          (w3, AudioUrl (''/audio/'' @ new_filename ext))"
        unfolding run h save_audio_copied [OF c] by simp
    next
      fix e
      assume c: "copy2 ext src ?dst w2 = (w3, Inl e)" and e: "is_exception (class_of e)"
      show "generate_podcast_endpoint ext data w = (w3, HttpError 500 (message e))"
        unfolding run h save_audio_failed [OF c] using e by simp
    qed
  qed
  have other: "(\<forall>p. result_str result = Some p \<longrightarrow> files w2 p = None)
            \<and> (\<forall>a. result_audio_path result = Some a \<longrightarrow> \<not> obj_truthy a) \<longrightarrow>
            generate_podcast_endpoint ext data w =
              (w2, HttpError 500 ''500: Invalid result format or no audio generated'')"
  proof
    assume a: "(\<forall>p. result_str result = Some p \<longrightarrow> files w2 p = None)
            \<and> (\<forall>a. result_audio_path result = Some a \<longrightarrow> \<not> obj_truthy a)"
    show "generate_podcast_endpoint ext data w =
        (w2, HttpError 500 ''500: Invalid result format or no audio generated'')"
      unfolding run handle_result_invalid [OF a [THEN conjunct1] a [THEN conjunct2]] by simp
  qed
  note len = hex16_shape [of "urandom8 ext", THEN conjunct1]
  note digits = hex16_shape [of "urandom8 ext", THEN conjunct2]
  from name len digits fresh copy other show ?thesis
    by (intro conjI)
qed

text \<open>
  In the example world the generator's file is copied and its URL returned; so it is when
  the generator returns an object whose \<open>audio_path\<close> is a \<open>pathlib.Path\<close> of that file.
\<close>

theorem generate_result_handling_witness:
  "snd (generate_podcast_endpoint example_ext 0 example_world)
     = AudioUrl ''/audio/podcast_0123456789abcdef.mp3''
   \<and> files (fst (generate_podcast_endpoint example_ext 0 example_world))
       ''/app/temp_audio/podcast_0123456789abcdef.mp3'' = Some [1, 2, 3]
   \<and> snd (generate_podcast_endpoint
          (example_ext\<lparr>generate_podcast :=
             (\<lambda>args w. (w\<lparr>files := (files w)(''/tmp/out.mp3'' \<mapsto> [1, 2, 3])\<rparr>,
                         Inr (Result None (Some (ObjPath ''/tmp/out.mp3'')))))\<rparr>)
          0 example_world)
     = AudioUrl ''/audio/podcast_0123456789abcdef.mp3''"
proof -
  obtain w1 args where p: "prepare example_ext 0 example_world = (w1, Inr args)"
    using example_prepare by (cases "prepare example_ext 0 example_world") simp
  let ?w2 = "w1\<lparr>files := (files w1)(''/tmp/out.mp3'' \<mapsto> [1, 2, 3])\<rparr>"
  let ?dst = "''/app/temp_audio/podcast_0123456789abcdef.mp3''"
  let ?w3 = "?w2\<lparr>files := (files ?w2)(?dst \<mapsto> [1, 2, 3])\<rparr>"
  have g: "generate_podcast example_ext args w1 =
      (?w2, Inr (Result (Some ''/tmp/out.mp3'') None))"
    by (simp add: example_ext_def)
  have name: "new_filename example_ext = ''podcast_0123456789abcdef.mp3''"
    by (simp add: new_filename_def example_ext_def hex16_example)
  have dst: "path_join (temp_dir example_ext) ''podcast_0123456789abcdef.mp3'' = ?dst"
    by (simp add: path_join_def example_ext_def)
  have c: "copy2 example_ext (ObjStr ''/tmp/out.mp3'') ?dst ?w2 = (?w3, Inr ())"
    by (simp add: example_ext_def example_copy_file_def)
  have src: "(\<exists>p. result_str (Result (Some ''/tmp/out.mp3'') None) = Some p
                \<and> files ?w2 p \<noteq> None \<and> ObjStr ''/tmp/out.mp3'' = ObjStr p)
             \<or> ((\<forall>p. result_str (Result (Some ''/tmp/out.mp3'') None) = Some p \<longrightarrow>
                       files ?w2 p = None)
                 \<and> result_audio_path (Result (Some ''/tmp/out.mp3'') None) =
                     Some (ObjStr ''/tmp/out.mp3'')
                 \<and> obj_truthy (ObjStr ''/tmp/out.mp3''))"
    by simp
  from generate_result_handling [OF p g]
  have "\<forall>src w3.
          ((\<exists>p. result_str (Result (Some ''/tmp/out.mp3'') None) = Some p
                \<and> files ?w2 p \<noteq> None \<and> src = ObjStr p)
           \<or> ((\<forall>p. result_str (Result (Some ''/tmp/out.mp3'') None) = Some p \<longrightarrow>
                     files ?w2 p = None)
               \<and> result_audio_path (Result (Some ''/tmp/out.mp3'') None) = Some src
               \<and> obj_truthy src)) \<longrightarrow>
          (copy2 example_ext src (path_join (temp_dir example_ext) (new_filename example_ext)) ?w2
             = (w3, Inr ()) \<longrightarrow>
             generate_podcast_endpoint example_ext 0 example_world =
               (w3, AudioUrl (''/audio/'' @ new_filename example_ext)))
        \<and> (\<forall>e. copy2 example_ext src
                   (path_join (temp_dir example_ext) (new_filename example_ext)) ?w2 = (w3, Inl e)
                \<and> is_exception (class_of e) \<longrightarrow>
               generate_podcast_endpoint example_ext 0 example_world =
                 (w3, HttpError 500 (message e)))"
    by (elim conjE)
  from this [rule_format, OF src, THEN conjunct1, unfolded name dst, rule_format, OF c]
  have "generate_podcast_endpoint example_ext 0 example_world =
      (?w3, AudioUrl (''/audio/'' @ ''podcast_0123456789abcdef.mp3''))" .
  then have copied: "snd (generate_podcast_endpoint example_ext 0 example_world)
     = AudioUrl ''/audio/podcast_0123456789abcdef.mp3''
   \<and> files (fst (generate_podcast_endpoint example_ext 0 example_world))
       ''/app/temp_audio/podcast_0123456789abcdef.mp3'' = Some [1, 2, 3]"
    by simp
  have path: "snd (generate_podcast_endpoint
          (example_ext\<lparr>generate_podcast :=
             (\<lambda>args w. (w\<lparr>files := (files w)(''/tmp/out.mp3'' \<mapsto> [1, 2, 3])\<rparr>,
                         Inr (Result None (Some (ObjPath ''/tmp/out.mp3'')))))\<rparr>)
          0 example_world)
     = AudioUrl ''/audio/podcast_0123456789abcdef.mp3''"
    by (simp add: handler_defs example_defs hex16_example)
  from copied path show ?thesis by simp
qed

subsection \<open>Failures\<close>

text \<open>
  Claim C8 says that every failure becomes an HTTP 500 whose detail is the error's
  message. It fails for an error that is no \<open>Exception\<close>: when the generator ends in
  \<open>SystemExit\<close>, \<open>except Exception\<close> does not catch it and the handler raises no
  \<open>HTTPException\<close>; the \<open>SystemExit\<close> passes on.
\<close>

theorem generate_failure_is_500_counterexample:
  "snd (generate_podcast_endpoint
          (example_ext\<lparr>generate_podcast := (\<lambda>args w. (w, Inl (Exn SystemExit ''1'')))\<rparr>)
          0 example_world)
     = Uncaught (Exn SystemExit ''1'')
   \<and> status_code
       (snd (generate_podcast_endpoint
               (example_ext\<lparr>generate_podcast := (\<lambda>args w. (w, Inl (Exn SystemExit ''1'')))\<rparr>)
               0 example_world))
     = None"
  by (simp add: handler_defs example_defs)

text \<open>
  Claim C8, amended to the errors that are an \<open>Exception\<close>. Each of them becomes an HTTP
  500 whose detail is the message of that very error:
  \<^item> an error raised before the generator is called (credentials, configuration, merge):
    every such error is an \<open>Exception\<close>;
  \<^item> an \<open>Exception\<close> raised by the generator;
  \<^item> an \<open>Exception\<close> raised while the result is handled (the copy);
  \<^item> an unrecognized result: the error is the handler's own \<open>HTTPException\<close>, whose message
    is \<open>500: Invalid result format or no audio generated\<close>;
  \<^item> altogether, any \<open>Exception\<close> the body under \<open>try\<close> raises; and the handler answers no
    error but these: whenever it answers an HTTP error, the code is 500 and the detail is
    the message of the error the body raised.
\<close>

theorem generate_failure_is_500:
  "(prepare ext data w = (wa, Inl e) \<longrightarrow>
      generate_podcast_endpoint ext data w = (wa, HttpError 500 (message e)))
 \<and> (prepare ext data w = (wa, Inr args) \<and> generate_podcast ext args wa = (wb, Inl e)
      \<and> is_exception (class_of e) \<longrightarrow>
      generate_podcast_endpoint ext data w = (wb, HttpError 500 (message e)))
 \<and> (prepare ext data w = (wa, Inr args) \<and> generate_podcast ext args wa = (wb, Inr result)
      \<and> handle_result ext result wb = (wc, Inl e) \<and> is_exception (class_of e) \<longrightarrow>
      generate_podcast_endpoint ext data w = (wc, HttpError 500 (message e)))
 \<and> (prepare ext data w = (wa, Inr args) \<and> generate_podcast ext args wa = (wb, Inr result)
      \<and> (\<forall>p. result_str result = Some p \<longrightarrow> files wb p = None)
      \<and> (\<forall>a. result_audio_path result = Some a \<longrightarrow> \<not> obj_truthy a) \<longrightarrow>
      generate_podcast_endpoint ext data w =
        (wb, HttpError 500 ''500: Invalid result format or no audio generated''))
 \<and> (try_body ext data w = (wd, Inl e) \<and> is_exception (class_of e) \<longrightarrow>
      generate_podcast_endpoint ext data w = (wd, HttpError 500 (message e)))
 \<and> (\<forall>code detail. snd (generate_podcast_endpoint ext data w) = HttpError code detail \<longrightarrow>
      code = 500
      \<and> (\<exists>w' e'. try_body ext data w = (w', Inl e') \<and> is_exception (class_of e')
                  \<and> detail = message e'))"
proof -
  have before: "prepare ext data w = (wa, Inl e) \<longrightarrow>
      generate_podcast_endpoint ext data w = (wa, HttpError 500 (message e))"
  proof
    assume p: "prepare ext data w = (wa, Inl e)"
    then have "is_exception (class_of e)"
      by (rule raises_exceptions_onlyD [OF raises_only_prepare])
    with p show "generate_podcast_endpoint ext data w = (wa, HttpError 500 (message e))"
      by (simp add: generate_podcast_endpoint_def try_body_def and_then_def)
  qed
  have generator: "prepare ext data w = (wa, Inr args) \<and> generate_podcast ext args wa = (wb, Inl e)
      \<and> is_exception (class_of e) \<longrightarrow>
      generate_podcast_endpoint ext data w = (wb, HttpError 500 (message e))"
    by (simp add: generate_podcast_endpoint_def try_body_def and_then_def)
  have handling: "prepare ext data w = (wa, Inr args)
      \<and> generate_podcast ext args wa = (wb, Inr result)
      \<and> handle_result ext result wb = (wc, Inl e) \<and> is_exception (class_of e) \<longrightarrow>
      generate_podcast_endpoint ext data w = (wc, HttpError 500 (message e))"
    by (simp add: generate_podcast_endpoint_def try_body_def and_then_def)
  have shape: "prepare ext data w = (wa, Inr args)
      \<and> generate_podcast ext args wa = (wb, Inr result)
      \<and> (\<forall>p. result_str result = Some p \<longrightarrow> files wb p = None)
      \<and> (\<forall>a. result_audio_path result = Some a \<longrightarrow> \<not> obj_truthy a) \<longrightarrow>
      generate_podcast_endpoint ext data w =
        (wb, HttpError 500 ''500: Invalid result format or no audio generated'')"
  proof (intro impI, elim conjE)
    assume p: "prepare ext data w = (wa, Inr args)"
      and g: "generate_podcast ext args wa = (wb, Inr result)"
      and a: "\<forall>p. result_str result = Some p \<longrightarrow> files wb p = None"
      and b: "\<forall>a. result_audio_path result = Some a \<longrightarrow> \<not> obj_truthy a"
    show "generate_podcast_endpoint ext data w =
        (wb, HttpError 500 ''500: Invalid result format or no audio generated'')"
      unfolding endpoint_after_generator [OF p g] handle_result_invalid [OF a b] by simp
  qed
  have body: "try_body ext data w = (wd, Inl e) \<and> is_exception (class_of e) \<longrightarrow>
      generate_podcast_endpoint ext data w = (wd, HttpError 500 (message e))"
    by (simp add: generate_podcast_endpoint_def)
  have only: "\<forall>code detail.
      snd (generate_podcast_endpoint ext data w) = HttpError code detail \<longrightarrow>
      code = 500
      \<and> (\<exists>w' e'. try_body ext data w = (w', Inl e') \<and> is_exception (class_of e')
                  \<and> detail = message e')"
    by (auto simp: generate_podcast_endpoint_def split: prod.splits sum.splits if_splits)
  from before generator handling shape body only show ?thesis
    by (intro conjI)
qed

text \<open>
  A generator that raises "boom" gives HTTP 500 with the detail "boom"; a result that is
  neither a string nor has an \<open>audio_path\<close> gives the message of the handler's own
  \<open>HTTPException\<close>; a credential that is a number gives the message of the \<open>TypeError\<close>
  that \<open>os.environ\<close> raises; a \<open>creativity\<close> that is no number gives the message of the
  \<open>ValueError\<close> that \<open>float()\<close> raises, one that is null the message of its \<open>TypeError\<close>;
  \<open>voices\<close> that are a string give the message of the \<open>AttributeError\<close> of line 109.
\<close>

theorem generate_failure_is_500_witness:
  "snd (generate_podcast_endpoint
          (example_ext\<lparr>generate_podcast := (\<lambda>args w. (w, Inl (Exn OtherException ''boom'')))\<rparr>)
          0 example_world)
     = HttpError 500 ''boom''
   \<and> snd (generate_podcast_endpoint
          (example_ext\<lparr>generate_podcast := (\<lambda>args w. (w, Inr (Result None None)))\<rparr>)
          0 example_world)
     = HttpError 500 ''500: Invalid result format or no audio generated''
   \<and> snd (generate_podcast_endpoint example_ext 0
            (example_world\<lparr>store := example_store[0 := [(''openai_key'', VInt 5)]]\<rparr>))
     = HttpError 500 ''str expected, not int''
   \<and> snd (generate_podcast_endpoint example_ext 5 example_world)
     = HttpError 500 (''could not convert string to float: '' @ quoted ''high'')
   \<and> snd (generate_podcast_endpoint example_ext 0
            (example_world\<lparr>store := example_store[0 := [(''creativity'', VNone)]]\<rparr>))
     = HttpError 500 (''float() argument must be a string or a real number, not ''
                      @ quoted ''NoneType'')
   \<and> snd (generate_podcast_endpoint example_ext 0
            (example_world\<lparr>store := example_store[0 := [(''voices'', VStr ''amy'')]]\<rparr>))
     = HttpError 500 (quoted ''str'' @ '' object has no attribute '' @ quoted ''get'')"
proof -
  let ?ext = "example_ext\<lparr>generate_podcast := (\<lambda>args w. (w, Inl (Exn OtherException ''boom'')))\<rparr>"
  have "snd (prepare ?ext 0 example_world) =
     Inr \<lparr>arg_urls = VList [VStr ''http://example.com''], arg_conversation_config = 17,
          arg_tts_model = VStr ''elevenlabs'', arg_longform = False\<rparr>"
    by (simp add: handler_defs example_defs)
  then obtain w1 args where p: "prepare ?ext 0 example_world = (w1, Inr args)"
    by (cases "prepare ?ext 0 example_world") simp
  have g: "generate_podcast ?ext args w1 = (w1, Inl (Exn OtherException ''boom''))"
    by simp
  have c: "is_exception (class_of (Exn OtherException ''boom''))"
    by simp
  from generate_failure_is_500
         [where ext = ?ext and data = 0 and w = example_world and wa = w1 and wb = w1
            and args = args and e = "Exn OtherException ''boom''"] p g c
  have "generate_podcast_endpoint ?ext 0 example_world =
      (w1, HttpError 500 (message (Exn OtherException ''boom'')))"
    by blast
  then have raised: "snd (generate_podcast_endpoint ?ext 0 example_world) = HttpError 500 ''boom''"
    by simp
  have other: "snd (generate_podcast_endpoint
          (example_ext\<lparr>generate_podcast := (\<lambda>args w. (w, Inr (Result None None)))\<rparr>)
          0 example_world)
     = HttpError 500 ''500: Invalid result format or no audio generated''"
    by (simp add: handler_defs example_defs)
  have key: "snd (generate_podcast_endpoint example_ext 0
            (example_world\<lparr>store := example_store[0 := [(''openai_key'', VInt 5)]]\<rparr>))
     = HttpError 500 ''str expected, not int''"
    by (simp add: handler_defs example_defs)
  have creativity: "snd (generate_podcast_endpoint example_ext 5 example_world)
     = HttpError 500 (''could not convert string to float: '' @ quoted ''high'')"
    by (simp add: handler_defs example_defs)
  have null: "snd (generate_podcast_endpoint example_ext 0
            (example_world\<lparr>store := example_store[0 := [(''creativity'', VNone)]]\<rparr>))
     = HttpError 500 (''float() argument must be a string or a real number, not ''
                      @ quoted ''NoneType'')"
    by (simp add: handler_defs example_defs)
  have voices: "snd (generate_podcast_endpoint example_ext 0
            (example_world\<lparr>store := example_store[0 := [(''voices'', VStr ''amy'')]]\<rparr>))
     = HttpError 500 (quoted ''str'' @ '' object has no attribute '' @ quoted ''get'')"
    by (simp add: handler_defs example_defs)
  from raised other key creativity null voices show ?thesis by (intro conjI)
qed

subsection \<open>Credentials in the environment\<close>



subsection \<open>A creativity that is no number\<close>

text \<open>
  Claim C10. If the request's \<open>creativity\<close> value, or (when the request lacks the key)
  the \<open>creativity\<close> value of the loaded base configuration, is a value \<open>float()\<close> raises
  on, the request fails with HTTP 500: the default 0.7 is used only when neither holds
  the key.
\<close>

theorem creativity_not_convertible_is_500:
  assumes "data < length (store w)"
    and "py_float ext v = Inl e"
    and "map_of (store w ! data) ''creativity'' = Some v
       \<or> (map_of (store w ! data) ''creativity'' = None
          \<and> (\<exists>b. config_loaded ext = Inr (VDict b) \<and> b < length (store w)
                 \<and> map_of (store w ! b) ''creativity'' = Some v))"
  shows "status_code (snd (generate_podcast_endpoint ext data w)) = Some 500"
proof (cases "prepare ext data w")
  case (Pair w1 r)
  show ?thesis
  proof (cases r)
    case (Inl e')
    with Pair have p: "prepare ext data w = (w1, Inl e')" by simp
    then have "is_exception (class_of e')"
      by (rule raises_exceptions_onlyD [OF raises_only_prepare])
    with p show ?thesis
      by (simp add: generate_podcast_endpoint_def try_body_def and_then_def)
  next
    case (Inr args)
    with Pair have "prepare ext data w = (w1, Inr args)" by simp
    then obtain wa wb wc b tts_model tts_base_config voices default_voices user_config
      where keys: "set_api_keys data w = (wa, Inr ())"
        and res: "resolve_config ext data wa =
                    (wb, Inr (b, tts_model, tts_base_config, voices, default_voices))"
        and build: "build_user_config ext data b tts_model tts_base_config voices default_voices wb =
                    (wc, Inr user_config)"
      by (elim prepare_InrE)
    from keys have st: "store wa = store w"
      by (simp add: set_api_keys_store)
    have data_same: "store wb ! data = store w ! data"
      using grows_storeD [OF grows_store_resolve_config res] assms(1) st by simp
    from build_user_config_InrD [OF build]
    obtain f where f: "py_float ext (creativity_arg (store wb) data b) = Inr f" ..
    from assms(3) have "creativity_arg (store wb) data b = v"
    proof
      assume "map_of (store w ! data) ''creativity'' = Some v"
      then show ?thesis
        by (simp add: creativity_arg_def dict_get_def data_same)
    next
      assume a: "map_of (store w ! data) ''creativity'' = None
          \<and> (\<exists>b. config_loaded ext = Inr (VDict b) \<and> b < length (store w)
                 \<and> map_of (store w ! b) ''creativity'' = Some v)"
      then obtain b0 where loaded: "config_loaded ext = Inr (VDict b0)"
        and b0: "b0 < length (store w)"
        and cv: "map_of (store w ! b0) ''creativity'' = Some v"
        by blast
      from resolve_config_base [OF loaded res] have "b = b0" by simp
      moreover have "store wb ! b0 = store w ! b0"
        using grows_storeD [OF grows_store_resolve_config res] b0 st by simp
      ultimately show ?thesis
        using a cv by (simp add: creativity_arg_def dict_get_def data_same)
    qed
    with f assms(2) show ?thesis by simp
  qed
qed

text \<open>The request at 5 of the example store has \<open>creativity = "high"\<close>.\<close>

theorem creativity_not_convertible_is_500_witness:
  "map_of (example_store ! 5) ''creativity'' = Some (VStr ''high'')
   \<and> status_code (snd (generate_podcast_endpoint example_ext 5 example_world)) = Some 500"
proof -
  have "status_code (snd (generate_podcast_endpoint example_ext 5 example_world)) = Some 500"
    by (rule creativity_not_convertible_is_500
          [where v = "VStr ''high''"
             and e = "Exn ValueError (''could not convert string to float: '' @ quoted ''high'')"])
       (simp_all add: example_defs py_float_def)
  then show ?thesis by (simp add: example_store_def)
qed

end
